theory Spec2Isabelle
  imports Complex_Main "HOL-Library.Char_ord" "HOL-Library.List_Lexorder"
begin

section \<open>Numbers and strings of the Python program\<close>

text \<open>
  The collector of \<^verbatim>\<open>dataset.py\<close> computes with Python and numpy floats. A float is
  modelled by the real number it stands for, and a float that is not a finite number
  (numpy's \<^verbatim>\<open>nan\<close>, or the infinity a division by zero leaves behind) by \<open>None\<close>:
  numpy divides by zero without raising. The rounding error of binary floating point is
  not modelled: every arithmetic operation below is exact.
\<close>

type_synonym float64 = "real option"

definition fsub :: "float64 \<Rightarrow> float64 \<Rightarrow> float64" where
  "fsub a b = (case (a, b) of (Some x, Some y) \<Rightarrow> Some (x - y) | _ \<Rightarrow> None)"

definition fmul :: "float64 \<Rightarrow> float64 \<Rightarrow> float64" where
  "fmul a b = (case (a, b) of (Some x, Some y) \<Rightarrow> Some (x * y) | _ \<Rightarrow> None)"

definition fdiv :: "float64 \<Rightarrow> float64 \<Rightarrow> float64" where
  "fdiv a b = (case (a, b) of
       (Some x, Some y) \<Rightarrow> if y = 0 then None else Some (x / y)
     | _ \<Rightarrow> None)"

text \<open>\<^verbatim>\<open>x > 0\<close> on a numpy float: false on \<^verbatim>\<open>nan\<close>.\<close>

definition fpos :: "float64 \<Rightarrow> bool" where
  "fpos a = (case a of Some x \<Rightarrow> 0 < x | None \<Rightarrow> False)"

text \<open>\<^verbatim>\<open>np.mean\<close> and \<^verbatim>\<open>np.std\<close> (the population standard deviation) of a
  non-empty window; one \<^verbatim>\<open>nan\<close> in the window makes the result \<^verbatim>\<open>nan\<close>.\<close>

definition np_mean :: "float64 list \<Rightarrow> float64" where
  "np_mean w = (if None \<in> set w then None
                else Some (sum_list (map the w) / real (length w)))"

definition np_std :: "float64 list \<Rightarrow> float64" where
  "np_std w = (case np_mean w of
       None \<Rightarrow> None
     | Some m \<Rightarrow> Some (sqrt (sum_list (map (\<lambda>x. (the x - m)\<^sup>2) w) / real (length w))))"

text \<open>Python's \<^verbatim>\<open>round(x, n)\<close> on a float: to \<open>n\<close> decimals, a tie going to the even
  neighbour.\<close>

definition py_round :: "real \<Rightarrow> nat \<Rightarrow> real" where
  "py_round x n =
     (let y = x * 10 ^ n; f = \<lfloor>y\<rfloor>; d = y - of_int f
      in (if d < 1 / 2 then of_int f
          else if 1 / 2 < d then of_int (f + 1)
          else if even f then of_int f else of_int (f + 1)) / 10 ^ n)"

definition fround :: "float64 \<Rightarrow> nat \<Rightarrow> float64" where
  "fround a n = map_option (\<lambda>x. py_round x n) a"

text \<open>\<^verbatim>\<open>int(x)\<close> on a finite float truncates towards zero.\<close>

definition py_int :: "real \<Rightarrow> int" where
  "py_int x = (if 0 \<le> x then \<lfloor>x\<rfloor> else \<lceil>x\<rceil>)"

text \<open>\<^verbatim>\<open>xs[a:b]\<close> for \<open>0 \<le> a \<le> b\<close>.\<close>

definition slice :: "'a list \<Rightarrow> nat \<Rightarrow> nat \<Rightarrow> 'a list" where
  "slice xs a b = take (b - a) (drop a xs)"


section \<open>The world outside the collector\<close>

text \<open>
  One row of the data frame \<^verbatim>\<open>ticker_obj.history(...)\<close> returns: the index already
  formatted by \<^verbatim>\<open>strftime\<close>, and the five readings, each a float that may be
  \<^verbatim>\<open>nan\<close>.
\<close>

record bar =
  bar_timestamp :: string
  bar_Open :: float64
  bar_High :: float64
  bar_Low :: float64
  bar_Close :: float64
  bar_Volume :: float64


section \<open>\<^verbatim>\<open>collect_price_data\<close>\<close>

record data_point =
  dp_timestamp :: string
  dp_open :: "real option"
  dp_high :: "real option"
  dp_low :: "real option"
  dp_close :: "real option"
  dp_volume :: "int option"
  volatility_5period :: "float64 option"
  momentum_5period :: "float64 option"
  volume_ratio_5period :: "float64 option"

text \<open>Lines 133--140: a \<^verbatim>\<open>nan\<close> reading becomes Python's \<^verbatim>\<open>None\<close>; the derived keys
  are absent.\<close>

definition to_data_point :: "bar \<Rightarrow> data_point" where
  "to_data_point row =
     \<lparr> dp_timestamp = bar_timestamp row,
       dp_open = bar_Open row,
       dp_high = bar_High row,
       dp_low = bar_Low row,
       dp_close = bar_Close row,
       dp_volume = map_option py_int (bar_Volume row),
       volatility_5period = None,
       momentum_5period = None,
       volume_ratio_5period = None \<rparr>"

text \<open>The bodies of the three loops of lines 149--164, at index \<open>i\<close>.\<close>

definition set_volatility :: "float64 list \<Rightarrow> nat \<Rightarrow> data_point list \<Rightarrow> data_point list" where
  "set_volatility closes i price_data =
     (let window = slice closes (i - 5) i;
          volatility = fmul (fdiv (np_std window) (np_mean window)) (Some 100)
      in price_data[i := (price_data ! i)\<lparr>volatility_5period := Some (fround volatility 2)\<rparr>])"

definition set_momentum :: "float64 list \<Rightarrow> nat \<Rightarrow> data_point list \<Rightarrow> data_point list" where
  "set_momentum closes i price_data =
     (let momentum = fmul (fdiv (fsub (closes ! i) (closes ! (i - 5))) (closes ! (i - 5))) (Some 100)
      in price_data[i := (price_data ! i)\<lparr>momentum_5period := Some (fround momentum 2)\<rparr>])"

definition set_volume_ratio :: "float64 list \<Rightarrow> nat \<Rightarrow> data_point list \<Rightarrow> data_point list" where
  "set_volume_ratio volumes i price_data =
     (let avg_volume = np_mean (slice volumes (i - 5) i)
      in if fpos avg_volume
         then (let vol_ratio = fdiv (volumes ! i) avg_volume
               in price_data[i := (price_data ! i)\<lparr>volume_ratio_5period := Some (fround vol_ratio 2)\<rparr>])
         else price_data)"

text \<open>Lines 144--164. Each \<^verbatim>\<open>for i in range(5, len(price_data))\<close> is a fold over
  \<open>[5..<length price_data]\<close>.\<close>

definition add_indicators :: "bar list \<Rightarrow> data_point list \<Rightarrow> data_point list" where
  "add_indicators hist price_data =
     (if length price_data > 10
      then (let closes = map bar_Close hist;
                volumes = map bar_Volume hist;
                n = length price_data;
                pd1 = fold (set_volatility closes) [5..<n] price_data;
                pd2 = fold (set_momentum closes) [5..<n] pd1
            in fold (set_volume_ratio volumes) [5..<n] pd2)
      else price_data)"

record price_metadata =
  pm_period :: string
  pm_data_points :: nat
  pm_start_time :: "string option"
  pm_end_time :: "string option"
  pm_collected_at :: string

text \<open>The dictionaries \<^verbatim>\<open>collect_price_data\<close> returns: the two error forms (line 128
  has no \<^verbatim>\<open>ticker\<close> key, line 181 has one) and the payload.\<close>

datatype price_result =
    PriceError "string option" string
  | PriceData string string string "data_point list" price_metadata

text \<open>What the price collector reads from outside: the history provider, which raises
  (\<open>Inl\<close>, with the exception's text) or returns the rows, and the clock.\<close>

record price_world =
  history :: "string \<Rightarrow> string \<Rightarrow> string \<Rightarrow> string + bar list"
  price_now :: string

definition collect_price_data ::
  "price_world \<Rightarrow> string \<Rightarrow> string \<Rightarrow> string \<Rightarrow> string \<Rightarrow> price_result" where
  "collect_price_data W ticker asset_type period interval =
     (case history W (if asset_type \<noteq> ''crypto'' then ticker else ticker @ ''-USD'') period interval of
        Inl e \<Rightarrow> PriceError (Some ticker) e
      | Inr hist \<Rightarrow>
          if hist = [] then PriceError None (''No historical data available for '' @ ticker)
          else (let price_data = add_indicators hist (map to_data_point hist)
                in PriceData ticker asset_type interval price_data
                     \<lparr> pm_period = period,
                       pm_data_points = length price_data,
                       pm_start_time = (if price_data \<noteq> [] then Some (dp_timestamp (hd price_data)) else None),
                       pm_end_time = (if price_data \<noteq> [] then Some (dp_timestamp (last price_data)) else None),
                       pm_collected_at = price_now W \<rparr>))"

text \<open>The \<^verbatim>\<open>price_data\<close> list of a result (empty for an error record, which has none).\<close>

fun price_data_of :: "price_result \<Rightarrow> data_point list" where
  "price_data_of (PriceData _ _ _ pd _) = pd"
| "price_data_of (PriceError _ _) = []"

text \<open>What one round of each loop does to the row it touches.\<close>

definition vol_upd :: "float64 list \<Rightarrow> nat \<Rightarrow> data_point \<Rightarrow> data_point" where
  "vol_upd closes i p = p\<lparr>volatility_5period :=
      Some (fround (fmul (fdiv (np_std (slice closes (i - 5) i)) (np_mean (slice closes (i - 5) i))) (Some 100)) 2)\<rparr>"

definition mom_upd :: "float64 list \<Rightarrow> nat \<Rightarrow> data_point \<Rightarrow> data_point" where
  "mom_upd closes i p = p\<lparr>momentum_5period :=
      Some (fround (fmul (fdiv (fsub (closes ! i) (closes ! (i - 5))) (closes ! (i - 5))) (Some 100)) 2)\<rparr>"

definition ratio_upd :: "float64 list \<Rightarrow> nat \<Rightarrow> data_point \<Rightarrow> data_point" where
  "ratio_upd volumes i p =
     (if fpos (np_mean (slice volumes (i - 5) i))
      then p\<lparr>volume_ratio_5period := Some (fround (fdiv (volumes ! i) (np_mean (slice volumes (i - 5) i))) 2)\<rparr>
      else p)"



section \<open>Strings and dictionaries\<close>

text \<open>Text is taken to be ASCII. \<^verbatim>\<open>str.strip()\<close> removes the white space at both ends;
  \<^verbatim>\<open>str.lower()\<close> lowers the letters A to Z; \<^verbatim>\<open>s.split(c)\<close> cuts at every \<open>c\<close> and
  always returns at least one piece.\<close>

definition py_isspace :: "char \<Rightarrow> bool" where
  "py_isspace c = (let n = (of_char c :: nat) in (9 \<le> n \<and> n \<le> 13) \<or> (28 \<le> n \<and> n \<le> 32))"

definition py_strip :: "string \<Rightarrow> string" where
  "py_strip s = rev (dropWhile py_isspace (rev (dropWhile py_isspace s)))"

definition py_lower :: "string \<Rightarrow> string" where
  "py_lower s = map (\<lambda>c. let n = (of_char c :: nat) in
                         if 65 \<le> n \<and> n \<le> 90 then char_of (n + 32) else c) s"

fun py_split :: "char \<Rightarrow> string \<Rightarrow> string list" where
  "py_split c [] = [[]]"
| "py_split c (x # xs) =
     (if x = c then [] # py_split c xs
      else (case py_split c xs of
              w # ws \<Rightarrow> (x # w) # ws
            | [] \<Rightarrow> [[x]]))"

text \<open>A Python dictionary whose order of insertion matters (it is iterated later) is an
  association list with distinct keys. \<^verbatim>\<open>if k not in d: d[k] = v\<close> appends the key;
  \<^verbatim>\<open>d[k][...] += ...\<close> changes the value in place.\<close>

definition dict_setdefault :: "'k \<Rightarrow> 'v \<Rightarrow> ('k \<times> 'v) list \<Rightarrow> ('k \<times> 'v) list" where
  "dict_setdefault k v d = (if k \<in> fst ` set d then d else d @ [(k, v)])"

definition dict_modify :: "'k \<Rightarrow> ('v \<Rightarrow> 'v) \<Rightarrow> ('k \<times> 'v) list \<Rightarrow> ('k \<times> 'v) list" where
  "dict_modify k f d = map (\<lambda>(k', v). if k' = k then (k', f v) else (k', v)) d"


section \<open>Sentiment scores\<close>

text \<open>What \<^verbatim>\<open>SentimentIntensityAnalyzer.polarity_scores\<close> returns.\<close>

record scores =
  sc_compound :: real
  sc_pos :: real
  sc_neg :: real
  sc_neu :: real

record sentiment =
  compound :: real
  positive :: real
  negative :: real
  neutral :: real
  label :: string

text \<open>The dictionary literal of lines 236--243, repeated at lines 364--371 and 468--475: the
  label is computed from the compound score by the same conditional expression at the
  three places.\<close>

definition sentiment_label :: "real \<Rightarrow> string" where
  "sentiment_label c =
     (if c \<ge> 0.05 then ''positive'' else if c \<le> - 0.05 then ''negative'' else ''neutral'')"

definition sentiment_entry :: "scores \<Rightarrow> sentiment" where
  "sentiment_entry s =
     \<lparr> compound = sc_compound s,
       positive = sc_pos s,
       negative = sc_neg s,
       neutral = sc_neu s,
       label = sentiment_label (sc_compound s) \<rparr>"


section \<open>The world of the news and social collectors\<close>

text \<open>A member of a JSON object that holds text: the key is absent, the value is
  \<^verbatim>\<open>null\<close>, or it is a string. \<^verbatim>\<open>d.get(k)\<close> gives \<^verbatim>\<open>None\<close> in the first two cases;
  \<^verbatim>\<open>d.get(k, '')\<close> inside an f-string gives the default for an absent key and the text
  \<^verbatim>\<open>None\<close> for \<^verbatim>\<open>null\<close>.\<close>

datatype jstr = Missing | Null | Str string

fun get :: "jstr \<Rightarrow> string option" where
  "get (Str s) = Some s"
| "get _ = None"

fun get_fmt :: "jstr \<Rightarrow> string \<Rightarrow> string" where
  "get_fmt Missing dflt = dflt"
| "get_fmt Null dflt = ''None''"
| "get_fmt (Str s) dflt = s"

record raw_article =
  ra_source_name :: jstr
  ra_title :: jstr
  ra_description :: jstr
  ra_publishedAt :: jstr
  ra_url :: jstr

record news_data =
  nd_status :: jstr
  nd_totalResults :: "int option"
  nd_articles :: "raw_article list"

text \<open>A candidate block of a scraped page: the text of its first \<^verbatim>\<open>h2\<close> or \<^verbatim>\<open>h3\<close>, and
  of its date-like element, when it has one.\<close>

record element =
  el_heading :: "string option"
  el_date :: "string option"

text \<open>An HTTP response: the status, what \<^verbatim>\<open>response.json()\<close> gives, and the candidate
  blocks that BeautifulSoup finds in \<^verbatim>\<open>response.text\<close> (line 342). \<open>Inl\<close> is a raised
  exception.\<close>

record response =
  status_code :: int
  json :: "string + news_data"
  article_elements :: "string + element list"

text \<open>A post as the platform's search returns it. An instant is a count of microseconds.\<close>

record status =
  st_id_str :: string
  st_created_at :: int
  st_full_text :: string
  st_followers_count :: int
  st_retweet_count :: int
  st_favorite_count :: int

text \<open>The four patterns of lines 448--451.\<close>

datatype pattern = Url | Mention | Retweet | Spaces

record world =
  newsapi_key :: "string option"
  twitter_credentials :: "(string \<times> string \<times> string \<times> string) option"
  shortName :: "string \<Rightarrow> string + string option"
  requests_get :: "string \<Rightarrow> string + response"
  search_tweets :: "string \<Rightarrow> string + status list"
  polarity_scores :: "string \<Rightarrow> scores"
  re_sub :: "pattern \<Rightarrow> string \<Rightarrow> string \<Rightarrow> string"
  now :: int
  strftime_date :: "int \<Rightarrow> string"
  strftime_datetime :: "int \<Rightarrow> string"

text \<open>\<^verbatim>\<open>end_date - timedelta(days=days_back)\<close>.\<close>

definition days_before :: "int \<Rightarrow> int \<Rightarrow> int" where
  "days_before t days_back = t - days_back * 86400000000"


section \<open>\<^verbatim>\<open>collect_alternative_news\<close>\<close>

record article =
  a_source :: "string option"
  a_title :: "string option"
  a_published_at :: "string option"
  a_url :: "string option"
  a_sentiment :: sentiment

record daily_average =
  da_date :: string
  da_articles_count :: nat
  da_avg_sentiment :: real
  da_positive_ratio :: real
  da_negative_ratio :: real
  da_neutral_ratio :: real

record news_metadata =
  nm_total_articles :: nat
  nm_period_days :: int
  nm_start_date :: string
  nm_end_date :: string
  nm_collected_at :: string

text \<open>The dictionaries the two news collectors return: the error record, the no-data
  status of line 380, the fallback's bundle of line 389 (articles, their count, the note
  and the time), and the primary bundle of line 287.\<close>

datatype news_result =
    NewsError string string
  | NewsStatus string string string
  | NewsFallback string string "article list" nat string string
  | NewsBundle string string "daily_average list" "article list" news_metadata

definition alternative_urls :: "string \<Rightarrow> string \<Rightarrow> string list" where
  "alternative_urls ticker asset_type =
     (if asset_type = ''crypto''
      then [''https://www.coindesk.com/search?q='' @ py_lower ticker,
            ''https://cointelegraph.com/tags/'' @ py_lower ticker]
      else [''https://www.marketwatch.com/search?q='' @ ticker @ ''&ts=0&tab=Articles''])"

text \<open>Lines 345--373, for one block: no heading, no article.\<close>

definition scraped_article :: "world \<Rightarrow> string \<Rightarrow> element \<Rightarrow> article option" where
  "scraped_article W source el =
     (case el_heading el of
        None \<Rightarrow> None
      | Some h \<Rightarrow>
          (let title = py_strip h;
               sentiment = polarity_scores W title;
               pub_date = (case el_date el of Some d \<Rightarrow> py_strip d | None \<Rightarrow> ''N/A'')
           in Some \<lparr> a_source = Some source,
                     a_title = Some title,
                     a_published_at = Some pub_date,
                     a_url = Some ''N/A'',
                     a_sentiment = sentiment_entry sentiment \<rparr>))"

text \<open>Lines 332--376, for one URL: whatever is raised (by the request, the parser, or
  \<^verbatim>\<open>url.split('/')[2]\<close> on a URL with fewer than three pieces) is swallowed and the
  page gives nothing. The source is the same for every block of a page, so a failing
  index fails at the first block with a heading, before anything is appended.\<close>

definition page_articles :: "world \<Rightarrow> string \<Rightarrow> article list" where
  "page_articles W url =
     (case requests_get W url of
        Inl e \<Rightarrow> []
      | Inr response \<Rightarrow>
          if status_code response = 200
          then (case article_elements response of
                  Inl e \<Rightarrow> []
                | Inr els \<Rightarrow>
                    (case py_split CHR ''/'' url of
                       p0 # p1 # source # rest \<Rightarrow> List.map_filter (scraped_article W source) (take 20 els)
                     | _ \<Rightarrow> []))
          else [])"

definition collect_alternative_news :: "world \<Rightarrow> string \<Rightarrow> string \<Rightarrow> int \<Rightarrow> news_result" where
  "collect_alternative_news W ticker asset_type days_back =
     (let articles = concat (map (page_articles W) (alternative_urls ticker asset_type))
      in if articles = []
         then NewsStatus ticker ''No articles found through alternative sources''
                (strftime_datetime W (now W))
         else NewsFallback ticker asset_type articles (length articles)
                ''Data collected through alternative sources - limited reliability''
                (strftime_datetime W (now W)))"


section \<open>\<^verbatim>\<open>collect_news_sentiment\<close>\<close>

text \<open>Lines 191--200: the query; looking the company name up may raise.\<close>

definition news_query :: "world \<Rightarrow> string \<Rightarrow> string \<Rightarrow> string + string" where
  "news_query W ticker asset_type =
     (if asset_type = ''crypto''
      then (if ticker = ''BTC'' then Inr ''Bitcoin OR BTC''
            else if ticker = ''ETH'' then Inr ''Ethereum OR ETH''
            else Inr (ticker @ '' cryptocurrency''))
      else (case shortName W ticker of
              Inl e \<Rightarrow> Inl e
            | Inr name \<Rightarrow>
                Inr (''('' @ ticker @ '' OR '' @ (case name of Some n \<Rightarrow> n | None \<Rightarrow> ticker)
                       @ '') stock'')))"

definition news_url :: "world \<Rightarrow> string \<Rightarrow> int \<Rightarrow> string \<Rightarrow> string" where
  "news_url W query days_back key =
     ''https://newsapi.org/v2/everything?q='' @ query
       @ ''&from='' @ strftime_date W (days_before (now W) days_back)
       @ ''&to='' @ strftime_date W (now W)
       @ ''&language=en&sortBy=publishedAt&apiKey='' @ key"

text \<open>Lines 219--245, for one article of the response.\<close>

definition news_article :: "world \<Rightarrow> raw_article \<Rightarrow> article option" where
  "news_article W ra =
     (let text = get_fmt (ra_title ra) '''' @ '' '' @ get_fmt (ra_description ra) ''''
      in if length (py_strip text) < 20 then None
         else (let sentiment = polarity_scores W text
               in Some \<lparr> a_source = get (ra_source_name ra),
                         a_title = get (ra_title ra),
                         a_published_at = get (ra_publishedAt ra),
                         a_url = get (ra_url ra),
                         a_sentiment = sentiment_entry sentiment \<rparr>))"

record day_acc =
  d_articles :: nat
  d_sentiment_sum :: real
  d_positive_count :: nat
  d_negative_count :: nat
  d_neutral_count :: nat

definition day_init :: day_acc where
  "day_init = \<lparr> d_articles = 0, d_sentiment_sum = 0, d_positive_count = 0,
                d_negative_count = 0, d_neutral_count = 0 \<rparr>"

text \<open>Lines 261--269.\<close>

definition day_add :: "article \<Rightarrow> day_acc \<Rightarrow> day_acc" where
  "day_add a d =
     (let d1 = d\<lparr>d_articles := d_articles d + 1\<rparr>;
          d2 = d1\<lparr>d_sentiment_sum := d_sentiment_sum d1 + compound (a_sentiment a)\<rparr>
      in if label (a_sentiment a) = ''positive'' then d2\<lparr>d_positive_count := d_positive_count d2 + 1\<rparr>
         else if label (a_sentiment a) = ''negative'' then d2\<lparr>d_negative_count := d_negative_count d2 + 1\<rparr>
         else d2\<lparr>d_neutral_count := d_neutral_count d2 + 1\<rparr>)"

text \<open>Lines 250--271, for one article: \<^verbatim>\<open>None.split\<close> raises, and the article is
  skipped.\<close>

definition daily_step :: "article \<Rightarrow> (string \<times> day_acc) list \<Rightarrow> (string \<times> day_acc) list" where
  "daily_step a daily_sentiment =
     (case a_published_at a of
        None \<Rightarrow> daily_sentiment
      | Some p \<Rightarrow>
          (let date = hd (py_split CHR ''T'' p)
           in dict_modify date (day_add a) (dict_setdefault date day_init daily_sentiment)))"

text \<open>Lines 276--285, for one item of the dictionary.\<close>

definition daily_entry :: "string \<times> day_acc \<Rightarrow> daily_average option" where
  "daily_entry item =
     (case item of (date, data) \<Rightarrow>
        if d_articles data > 0
        then (let avg_sentiment = d_sentiment_sum data / real (d_articles data)
              in Some \<lparr> da_date = date,
                        da_articles_count = d_articles data,
                        da_avg_sentiment = py_round avg_sentiment 3,
                        da_positive_ratio = py_round (real (d_positive_count data) / real (d_articles data)) 3,
                        da_negative_ratio = py_round (real (d_negative_count data) / real (d_articles data)) 3,
                        da_neutral_ratio = py_round (real (d_neutral_count data) / real (d_articles data)) 3 \<rparr>)
        else None)"

definition daily_averages_of :: "article list \<Rightarrow> daily_average list" where
  "daily_averages_of articles =
     sort_key da_date (List.map_filter daily_entry (fold daily_step articles []))"

definition collect_news_sentiment :: "world \<Rightarrow> string \<Rightarrow> string \<Rightarrow> int \<Rightarrow> news_result" where
  "collect_news_sentiment W ticker asset_type days_back =
     (case newsapi_key W of
        None \<Rightarrow> collect_alternative_news W ticker asset_type days_back
      | Some key \<Rightarrow>
          if key = [] then collect_alternative_news W ticker asset_type days_back
          else (case news_query W ticker asset_type of
                  Inl e \<Rightarrow> NewsError ticker e
                | Inr query \<Rightarrow>
                    (case requests_get W (news_url W query days_back key) of
                       Inl e \<Rightarrow> NewsError ticker e
                     | Inr response \<Rightarrow>
                         if status_code response \<noteq> 200
                         then collect_alternative_news W ticker asset_type days_back
                         else (case json response of
                                 Inl e \<Rightarrow> NewsError ticker e
                               | Inr nd \<Rightarrow>
                                   if nd_status nd \<noteq> Str ''ok''
                                      \<or> (case nd_totalResults nd of Some n \<Rightarrow> n | None \<Rightarrow> 0) = 0
                                   then collect_alternative_news W ticker asset_type days_back
                                   else (let articles = List.map_filter (news_article W) (nd_articles nd)
                                         in NewsBundle ticker asset_type
                                              (daily_averages_of articles) articles
                                              \<lparr> nm_total_articles = length articles,
                                                nm_period_days = days_back,
                                                nm_start_date = strftime_date W (days_before (now W) days_back),
                                                nm_end_date = strftime_date W (now W),
                                                nm_collected_at = strftime_datetime W (now W) \<rparr>)))))"

text \<open>The articles a news result holds.\<close>

fun articles_of :: "news_result \<Rightarrow> article list" where
  "articles_of (NewsBundle _ _ _ arts _) = arts"
| "articles_of (NewsFallback _ _ arts _ _ _) = arts"
| "articles_of _ = []"

fun daily_of :: "news_result \<Rightarrow> daily_average list" where
  "daily_of (NewsBundle _ _ daily _ _) = daily"
| "daily_of _ = []"


section \<open>\<^verbatim>\<open>collect_social_sentiment\<close>\<close>

record tweet_data =
  t_id :: string
  t_created_at :: string
  t_text :: string
  user_followers :: int
  retweet_count :: int
  favorite_count :: int
  t_sentiment :: sentiment

record hourly_average =
  ha_date_hour :: string
  ha_tweets_count :: nat
  ha_avg_sentiment :: real
  ha_weighted_sentiment :: real
  ha_positive_ratio :: real
  ha_negative_ratio :: real
  ha_neutral_ratio :: real

record social_metadata =
  sm_total_tweets :: nat
  sm_period_days :: int
  sm_start_date :: string
  sm_end_date :: string
  sm_collected_at :: string

datatype social_result =
    SocialStatus string string
  | SocialError string string
  | SocialBundle string string "hourly_average list" "tweet_data list" social_metadata

definition social_query :: "string \<Rightarrow> string \<Rightarrow> string" where
  "social_query ticker asset_type =
     (if asset_type = ''crypto''
      then (if ticker = ''BTC'' then ''$BTC OR #Bitcoin OR Bitcoin''
            else if ticker = ''ETH'' then ''$ETH OR #Ethereum OR Ethereum''
            else ''$'' @ ticker @ '' OR #'' @ ticker)
      else ''$'' @ ticker @ '' OR #'' @ ticker @ '' stock'')"

text \<open>Lines 447--452.\<close>

definition clean_text :: "world \<Rightarrow> string \<Rightarrow> string" where
  "clean_text W full_text =
     (let text = re_sub W Url '''' full_text;
          text = re_sub W Mention '''' text;
          text = re_sub W Retweet '''' text;
          text = re_sub W Spaces '' '' text
      in py_strip text)"

text \<open>Lines 441--477, for one post: outside the window or too short, it is dropped.\<close>

definition tweet_entry :: "world \<Rightarrow> int \<Rightarrow> status \<Rightarrow> tweet_data option" where
  "tweet_entry W start_date tweet =
     (if st_created_at tweet < start_date then None
      else (let text = clean_text W (st_full_text tweet)
            in if length text < 10 then None
               else (let sentiment = polarity_scores W text
                     in Some \<lparr> t_id = st_id_str tweet,
                               t_created_at = strftime_datetime W (st_created_at tweet),
                               t_text = text,
                               user_followers = st_followers_count tweet,
                               retweet_count = st_retweet_count tweet,
                               favorite_count = st_favorite_count tweet,
                               t_sentiment = sentiment_entry sentiment \<rparr>)))"

text \<open>Line 499, the engagement weight of a post.\<close>

definition weight :: "int \<Rightarrow> int \<Rightarrow> int \<Rightarrow> real" where
  "weight followers reposts likes =
     1 + 0.1 * real_of_int (reposts + likes) + 0.001 * real_of_int followers"

definition tweet_weight :: "tweet_data \<Rightarrow> real" where
  "tweet_weight t = weight (user_followers t) (retweet_count t) (favorite_count t)"

record hour_acc =
  h_tweets :: nat
  h_sentiment_sum :: real
  h_sentiment_weighted_sum :: real
  h_total_weight :: real
  h_positive_count :: nat
  h_negative_count :: nat
  h_neutral_count :: nat

definition hour_init :: hour_acc where
  "hour_init = \<lparr> h_tweets = 0, h_sentiment_sum = 0, h_sentiment_weighted_sum = 0,
                 h_total_weight = 0, h_positive_count = 0, h_negative_count = 0,
                 h_neutral_count = 0 \<rparr>"

text \<open>Lines 499--511.\<close>

definition hour_add :: "tweet_data \<Rightarrow> hour_acc \<Rightarrow> hour_acc" where
  "hour_add t h =
     (let weight = tweet_weight t;
          h1 = h\<lparr>h_tweets := h_tweets h + 1\<rparr>;
          h2 = h1\<lparr>h_sentiment_sum := h_sentiment_sum h1 + compound (t_sentiment t)\<rparr>;
          h3 = h2\<lparr>h_sentiment_weighted_sum :=
                    h_sentiment_weighted_sum h2 + compound (t_sentiment t) * weight\<rparr>;
          h4 = h3\<lparr>h_total_weight := h_total_weight h3 + weight\<rparr>
      in if label (t_sentiment t) = ''positive'' then h4\<lparr>h_positive_count := h_positive_count h4 + 1\<rparr>
         else if label (t_sentiment t) = ''negative'' then h4\<lparr>h_negative_count := h_negative_count h4 + 1\<rparr>
         else h4\<lparr>h_neutral_count := h_neutral_count h4 + 1\<rparr>)"

text \<open>Lines 484--485: the stored time was written by \<^verbatim>\<open>strftime("%Y-%m-%d %H:%M:%S")\<close>,
  so \<^verbatim>\<open>strptime\<close> reads it back, and \<^verbatim>\<open>strftime("%Y-%m-%d %H")\<close> of the result is its
  first 13 characters.\<close>

definition date_hour_of :: "tweet_data \<Rightarrow> string" where
  "date_hour_of t = take 13 (t_created_at t)"

definition hourly_step :: "tweet_data \<Rightarrow> (string \<times> hour_acc) list \<Rightarrow> (string \<times> hour_acc) list" where
  "hourly_step t hourly_sentiment =
     (let date_hour = date_hour_of t
      in dict_modify date_hour (hour_add t) (dict_setdefault date_hour hour_init hourly_sentiment))"

text \<open>Lines 518--531, for one item of the dictionary.\<close>

definition hourly_entry :: "string \<times> hour_acc \<Rightarrow> hourly_average option" where
  "hourly_entry item =
     (case item of (date_hour, data) \<Rightarrow>
        if h_tweets data > 0
        then (let avg_sentiment = h_sentiment_sum data / real (h_tweets data);
                  weighted_avg = (if h_total_weight data > 0
                                  then h_sentiment_weighted_sum data / h_total_weight data
                                  else avg_sentiment)
              in Some \<lparr> ha_date_hour = date_hour,
                        ha_tweets_count = h_tweets data,
                        ha_avg_sentiment = py_round avg_sentiment 3,
                        ha_weighted_sentiment = py_round weighted_avg 3,
                        ha_positive_ratio = py_round (real (h_positive_count data) / real (h_tweets data)) 3,
                        ha_negative_ratio = py_round (real (h_negative_count data) / real (h_tweets data)) 3,
                        ha_neutral_ratio = py_round (real (h_neutral_count data) / real (h_tweets data)) 3 \<rparr>)
        else None)"

definition hourly_averages_of :: "tweet_data list \<Rightarrow> hourly_average list" where
  "hourly_averages_of tweets =
     sort_key ha_date_hour (List.map_filter hourly_entry (fold hourly_step tweets []))"

text \<open>Lines 438--477: the cursor hands over at most 500 posts.\<close>

definition collected_tweets :: "world \<Rightarrow> int \<Rightarrow> status list \<Rightarrow> tweet_data list" where
  "collected_tweets W start_date found = List.map_filter (tweet_entry W start_date) (take 500 found)"

definition collect_social_sentiment :: "world \<Rightarrow> string \<Rightarrow> string \<Rightarrow> int \<Rightarrow> social_result" where
  "collect_social_sentiment W ticker asset_type days_back =
     (case twitter_credentials W of
        None \<Rightarrow> SocialStatus ticker ''Twitter API credentials not provided''
      | Some creds \<Rightarrow>
          (let end_date = now W;
               start_date = days_before end_date days_back
           in case search_tweets W (social_query ticker asset_type) of
                Inl e \<Rightarrow> SocialError ticker (''Social sentiment collection failed: '' @ e)
              | Inr found \<Rightarrow>
                  (let tweets = collected_tweets W start_date found
                   in SocialBundle ticker asset_type
                        (hourly_averages_of tweets)
                        (take 100 tweets)
                        \<lparr> sm_total_tweets = length tweets,
                          sm_period_days = days_back,
                          sm_start_date = strftime_date W start_date,
                          sm_end_date = strftime_date W end_date,
                          sm_collected_at = strftime_datetime W (now W) \<rparr>)))"


text \<open>The parts of a social result (empty for a status or error record).\<close>

fun hourly_of :: "social_result \<Rightarrow> hourly_average list" where
  "hourly_of (SocialBundle _ _ hourly _ _) = hourly"
| "hourly_of _ = []"

fun tweets_of :: "social_result \<Rightarrow> tweet_data list" where
  "tweets_of (SocialBundle _ _ _ tweets _) = tweets"
| "tweets_of _ = []"

fun total_tweets_of :: "social_result \<Rightarrow> nat" where
  "total_tweets_of (SocialBundle _ _ _ _ md) = sm_total_tweets md"
| "total_tweets_of _ = 0"


section \<open>Auxiliary definitions\<close>

text \<open>Both grouping loops (lines 249--271 and 481--514) have one shape: an item without a
  key is skipped; otherwise its bucket is created when absent and then updated.\<close>

definition group_step ::
  "('x \<Rightarrow> 'k option) \<Rightarrow> ('x \<Rightarrow> 'v \<Rightarrow> 'v) \<Rightarrow> 'v \<Rightarrow> 'x \<Rightarrow> ('k \<times> 'v) list \<Rightarrow> ('k \<times> 'v) list" where
  "group_step key add init x d =
     (case key x of
        None \<Rightarrow> d
      | Some k \<Rightarrow> dict_modify k (add x) (dict_setdefault k init d))"

text \<open>The calendar date an article is grouped under, when it has one.\<close>

definition article_date :: "article \<Rightarrow> string option" where
  "article_date a = map_option (\<lambda>p. hd (py_split CHR ''T'' p)) (a_published_at a)"

text \<open>How many items of a list carry a given label, and how many carry neither
  \<^verbatim>\<open>positive\<close> nor \<^verbatim>\<open>negative\<close> (the \<^verbatim>\<open>else\<close> branch of lines 268 and 510).\<close>

definition count_label :: "string \<Rightarrow> sentiment list \<Rightarrow> nat" where
  "count_label l ss = length (filter (\<lambda>s. label s = l) ss)"

definition count_other :: "sentiment list \<Rightarrow> nat" where
  "count_other ss = length (filter (\<lambda>s. label s \<noteq> ''positive'' \<and> label s \<noteq> ''negative'') ss)"

text \<open>The posts the social collector keeps (the local list \<^verbatim>\<open>tweets\<close> of line 438, before
  the bundle cuts it to 100): those among the first 500 found that pass the window and
  length filters.\<close>

definition kept_tweets :: "world \<Rightarrow> string \<Rightarrow> string \<Rightarrow> int \<Rightarrow> tweet_data list" where
  "kept_tweets W ticker asset_type days_back =
     (case search_tweets W (social_query ticker asset_type) of
        Inl e \<Rightarrow> []
      | Inr found \<Rightarrow> collected_tweets W (days_before (now W) days_back) found)"

text \<open>The posts of one hourly bucket, the scored articles of one daily bucket.\<close>

definition hour_posts :: "tweet_data list \<Rightarrow> string \<Rightarrow> tweet_data list" where
  "hour_posts tweets date_hour = filter (\<lambda>t. date_hour_of t = date_hour) tweets"

definition day_articles :: "article list \<Rightarrow> string \<Rightarrow> article list" where
  "day_articles articles date = filter (\<lambda>a. article_date a = Some date) articles"


section \<open>\<^verbatim>\<open>collect_sentiment_data_batch\<close>\<close>

text \<open>What a task of the pool hands back through \<^verbatim>\<open>future.result()\<close>: the dictionary one
  of the three collectors returned, or an exception.\<close>

datatype payload = PriceV price_result | NewsV news_result | SocialV social_result

datatype outcome = Raised string | Returned payload

text \<open>\<^verbatim>\<open>data["error"]\<close> when \<^verbatim>\<open>"error" in data\<close>.\<close>

fun error_of :: "payload \<Rightarrow> string option" where
  "error_of (PriceV (PriceError _ e)) = Some e"
| "error_of (NewsV (NewsError _ e)) = Some e"
| "error_of (SocialV (SocialError _ e)) = Some e"
| "error_of _ = None"

datatype category = Price | News | Social

fun cat_name :: "category \<Rightarrow> string" where
  "cat_name Price = ''price''"
| "cat_name News = ''news''"
| "cat_name Social = ''social''"

text \<open>The directories \<^verbatim>\<open>__init__\<close> creates (lines 37--39).\<close>

record dirs =
  price_dir :: string
  news_dir :: string
  social_dir :: string

fun cat_dir :: "dirs \<Rightarrow> category \<Rightarrow> string" where
  "cat_dir S Price = price_dir S"
| "cat_dir S News = news_dir S"
| "cat_dir S Social = social_dir S"

text \<open>\<^verbatim>\<open>os.path.join(dir, f"{ticker}_price.json")\<close>, for a directory name that does not end
  in a separator and a ticker that is a plain symbol.\<close>

definition file_path :: "dirs \<Rightarrow> category \<Rightarrow> string \<Rightarrow> string" where
  "file_path S cat ticker = cat_dir S cat @ ''/'' @ ticker @ ''_'' @ cat_name cat @ ''.json''"

text \<open>A value of the inner dictionary \<^verbatim>\<open>results[ticker]\<close>: a collector's dictionary under
  \<^verbatim>\<open>price\<close>, \<^verbatim>\<open>news\<close> or \<^verbatim>\<open>social\<close>, a message under \<^verbatim>\<open>price_error\<close>, \<^verbatim>\<open>news_error\<close> or
  \<^verbatim>\<open>social_error\<close>.\<close>

datatype entry = Data payload | ErrorText string

text \<open>The state the completion loops change: the result map and the files on disk, a file
  being the dictionary that \<^verbatim>\<open>json.dump\<close> wrote to it. Opening and writing a file are
  taken to succeed.\<close>

record batch_state =
  results :: "string \<rightharpoonup> (string \<rightharpoonup> entry)"
  files :: "string \<rightharpoonup> payload"

text \<open>\<^verbatim>\<open>if ticker not in results: results[ticker] = {}\<close>, then
  \<^verbatim>\<open>results[ticker][key] = v\<close>.\<close>

definition set_result ::
  "string \<Rightarrow> string \<Rightarrow> entry \<Rightarrow> (string \<rightharpoonup> (string \<rightharpoonup> entry)) \<Rightarrow> (string \<rightharpoonup> (string \<rightharpoonup> entry))" where
  "set_result ticker key v res =
     (let inner = (case res ticker of None \<Rightarrow> Map.empty | Some m \<Rightarrow> m)
      in res(ticker \<mapsto> inner(key \<mapsto> v)))"

text \<open>\<^verbatim>\<open>results[ticker][key]\<close>, when both keys are there.\<close>

definition result_at :: "batch_state \<Rightarrow> string \<Rightarrow> string \<Rightarrow> entry option" where
  "result_at st ticker key = (case results st ticker of None \<Rightarrow> None | Some m \<Rightarrow> m key)"

text \<open>The body of a completion loop (lines 567--589, 603--625, 639--661), for one completed
  future. The pause that follows it is not modelled.\<close>

definition handle_result :: "dirs \<Rightarrow> category \<Rightarrow> string \<times> outcome \<Rightarrow> batch_state \<Rightarrow> batch_state" where
  "handle_result S cat item st =
     (case item of (ticker, future) \<Rightarrow>
        (case future of
           Raised e \<Rightarrow>
             st\<lparr>results := set_result ticker (cat_name cat @ ''_error'') (ErrorText e) (results st)\<rparr>
         | Returned data \<Rightarrow>
             (case error_of data of
                None \<Rightarrow>
                  st\<lparr>files := (files st)(file_path S cat ticker \<mapsto> data),
                     results := set_result ticker (cat_name cat) (Data data) (results st)\<rparr>
              | Some e \<Rightarrow>
                  st\<lparr>results := set_result ticker (cat_name cat @ ''_error'') (ErrorText e) (results st)\<rparr>)))"

text \<open>One phase: the futures are handled in the order they complete, which is any order.\<close>

definition run_phase :: "dirs \<Rightarrow> category \<Rightarrow> (string \<times> outcome) list \<Rightarrow> batch_state \<Rightarrow> batch_state" where
  "run_phase S cat completed st = fold (handle_result S cat) completed st"

text \<open>The three phases, one after the other (lines 559--664). \<open>tasks cat ticker\<close> is what
  the future submitted for \<open>ticker\<close> in phase \<open>cat\<close> hands back; \<open>order cat\<close> is the order
  in which the pool completes the tasks of that phase; \<open>fs\<close> is what is on disk before.\<close>

definition run_batch ::
  "dirs \<Rightarrow> (category \<Rightarrow> string \<Rightarrow> outcome) \<Rightarrow> (category \<Rightarrow> string list \<Rightarrow> string list)
     \<Rightarrow> string list \<Rightarrow> (category \<Rightarrow> bool) \<Rightarrow> (string \<rightharpoonup> payload) \<Rightarrow> batch_state" where
  "run_batch S tasks order tickers enabled fs =
     (let st0 = \<lparr> results = Map.empty, files = fs \<rparr>;
          st1 = (if enabled Price
                 then run_phase S Price (map (\<lambda>ticker. (ticker, tasks Price ticker)) (order Price tickers)) st0
                 else st0);
          st2 = (if enabled News
                 then run_phase S News (map (\<lambda>ticker. (ticker, tasks News ticker)) (order News tickers)) st1
                 else st1)
      in if enabled Social
         then run_phase S Social (map (\<lambda>ticker. (ticker, tasks Social ticker)) (order Social tickers)) st2
         else st2)"

text \<open>The tasks the batch submits (lines 562, 598, 634), each with its default arguments.
  A collector catches every exception itself, so its future returns.\<close>

fun collector_task :: "price_world \<Rightarrow> world \<Rightarrow> string \<Rightarrow> category \<Rightarrow> string \<Rightarrow> outcome" where
  "collector_task PW W asset_type Price ticker =
     Returned (PriceV (collect_price_data PW ticker asset_type ''30d'' ''1h''))"
| "collector_task PW W asset_type News ticker =
     Returned (NewsV (collect_news_sentiment W ticker asset_type 7))"
| "collector_task PW W asset_type Social ticker =
     Returned (SocialV (collect_social_sentiment W ticker asset_type 3))"

text \<open>The flags of the three phases: the social phase also needs credentials (line 631).\<close>

fun phase_enabled :: "world \<Rightarrow> bool \<Rightarrow> bool \<Rightarrow> bool \<Rightarrow> category \<Rightarrow> bool" where
  "phase_enabled W collect_price collect_news collect_social Price = collect_price"
| "phase_enabled W collect_price collect_news collect_social News = collect_news"
| "phase_enabled W collect_price collect_news collect_social Social =
     (collect_social \<and> twitter_credentials W \<noteq> None)"

definition collect_sentiment_data_batch ::
  "dirs \<Rightarrow> price_world \<Rightarrow> world \<Rightarrow> (category \<Rightarrow> string list \<Rightarrow> string list) \<Rightarrow> string list \<Rightarrow> string
     \<Rightarrow> bool \<Rightarrow> bool \<Rightarrow> bool \<Rightarrow> (string \<rightharpoonup> payload) \<Rightarrow> batch_state" where
  "collect_sentiment_data_batch S PW W order tickers asset_type collect_price collect_news collect_social fs =
     run_batch S (collector_task PW W asset_type) order tickers
       (phase_enabled W collect_price collect_news collect_social) fs"

text \<open>How a future ended, for the completion loop: with a dictionary that has no
  \<^verbatim>\<open>error\<close> key, or else with a message (the dictionary's, or the exception's).\<close>

fun succeeded :: "outcome \<Rightarrow> payload option" where
  "succeeded (Returned data) = (if error_of data = None then Some data else None)"
| "succeeded (Raised e) = None"

fun failure :: "outcome \<Rightarrow> string option" where
  "failure (Returned data) = error_of data"
| "failure (Raised e) = Some e"

text \<open>The three places of a ticker in a category: its file and its two keys.\<close>

definition places :: "dirs \<Rightarrow> category \<Rightarrow> string \<Rightarrow> batch_state \<Rightarrow> payload option \<times> entry option \<times> entry option" where
  "places S c t st =
     (files st (file_path S c t), result_at st t (cat_name c), result_at st t (cat_name c @ ''_error''))"


section \<open>Concrete price histories\<close>

definition flat_bar :: "string \<Rightarrow> bar" where
  "flat_bar ts = \<lparr> bar_timestamp = ts, bar_Open = Some 100, bar_High = Some 100,
                   bar_Low = Some 100, bar_Close = Some 100, bar_Volume = Some 1000 \<rparr>"

definition six_stamps :: "string list" where
  "six_stamps = [''2024-01-02 09:30:00'', ''2024-01-02 10:30:00'', ''2024-01-02 11:30:00'',
                 ''2024-01-02 12:30:00'', ''2024-01-02 13:30:00'', ''2024-01-02 14:30:00'']"

definition eleven_stamps :: "string list" where
  "eleven_stamps = six_stamps @
     [''2024-01-02 15:30:00'', ''2024-01-03 09:30:00'', ''2024-01-03 10:30:00'',
      ''2024-01-03 11:30:00'', ''2024-01-03 12:30:00'']"

text \<open>A provider that returns six flat bars (close 100, volume 1000), and one that
  returns eleven.\<close>

definition six_flat_world :: price_world where
  "six_flat_world = \<lparr> history = (\<lambda>sym period interval. Inr (map flat_bar six_stamps)),
                       price_now = ''2024-01-04 08:00:00'' \<rparr>"

definition eleven_flat_world :: price_world where
  "eleven_flat_world = \<lparr> history = (\<lambda>sym period interval. Inr (map flat_bar eleven_stamps)),
                          price_now = ''2024-01-04 08:00:00'' \<rparr>"

text \<open>A rising series: bar \<open>k\<close> closes at \<open>100 + k\<close> on volume \<open>1000 + 10 k\<close>.\<close>

definition rising_bar :: "nat \<Rightarrow> bar" where
  "rising_bar k = \<lparr> bar_timestamp = ''2024-02-01 09:30:00'', bar_Open = Some (100 + real k),
                    bar_High = Some (101 + real k), bar_Low = Some (99 + real k),
                    bar_Close = Some (100 + real k), bar_Volume = Some (1000 + 10 * real k) \<rparr>"

definition rising_world :: "nat \<Rightarrow> price_world" where
  "rising_world n = \<lparr> history = (\<lambda>sym period interval. Inr (map rising_bar [0..<n])),
                      price_now = ''2024-02-02 08:00:00'' \<rparr>"


section \<open>A concrete world for the news and social collectors\<close>

definition headline_up :: string where
  "headline_up = ''Apple shares rally after strong earnings''"

definition headline_down :: string where
  "headline_down = ''Apple hit by heavy loss and debt worries''"

definition headline_flat :: string where
  "headline_flat = ''Apple to hold its annual meeting in June''"

text \<open>A scorer that knows two headlines and calls every other text neutral.\<close>

definition demo_scores :: "string \<Rightarrow> scores" where
  "demo_scores text =
     (if py_strip text = headline_up
      then \<lparr> sc_compound = 0.05, sc_pos = 0.2, sc_neg = 0, sc_neu = 0.8 \<rparr>
      else if py_strip text = headline_down
      then \<lparr> sc_compound = - 0.05, sc_pos = 0, sc_neg = 0.3, sc_neu = 0.7 \<rparr>
      else \<lparr> sc_compound = 0, sc_pos = 0, sc_neg = 0, sc_neu = 1 \<rparr>)"

definition demo_raw :: "string \<Rightarrow> string \<Rightarrow> raw_article" where
  "demo_raw title published =
     \<lparr> ra_source_name = Str ''Newswire'', ra_title = Str title, ra_description = Missing,
       ra_publishedAt = Str published, ra_url = Str ''https://example.org/a'' \<rparr>"

definition demo_news :: news_data where
  "demo_news = \<lparr> nd_status = Str ''ok'', nd_totalResults = Some 3,
                 nd_articles = [demo_raw headline_up ''2024-03-01T10:00:00Z'',
                                demo_raw headline_down ''2024-03-01T15:30:00Z'',
                                demo_raw headline_flat ''2024-03-02T08:00:00Z''] \<rparr>"

definition demo_page :: "element list" where
  "demo_page = [\<lparr> el_heading = Some headline_up, el_date = Some ''Mar 1, 2024'' \<rparr>,
                \<lparr> el_heading = None, el_date = None \<rparr>,
                \<lparr> el_heading = Some headline_flat, el_date = None \<rparr>]"

definition demo_status :: "string \<Rightarrow> int \<Rightarrow> string \<Rightarrow> int \<Rightarrow> int \<Rightarrow> int \<Rightarrow> status" where
  "demo_status i t txt followers reposts likes =
     \<lparr> st_id_str = i, st_created_at = t, st_full_text = txt, st_followers_count = followers,
       st_retweet_count = reposts, st_favorite_count = likes \<rparr>"

definition demo_posts :: "status list" where
  "demo_posts = [demo_status ''101'' 1 headline_up 1000 1 2,
                 demo_status ''102'' 2 headline_down 0 0 0,
                 demo_status ''103'' 3 headline_flat 500 0 5,
                 demo_status ''104'' 3 ''too short'' 10 0 0]"

definition demo_strftime :: "int \<Rightarrow> string" where
  "demo_strftime t =
     (if t = 1 then ''2024-03-01 10:15:00''
      else if t = 2 then ''2024-03-01 10:45:00''
      else if t = 3 then ''2024-03-01 11:05:00''
      else ''2024-03-02 09:00:00'')"

text \<open>Every request is answered with status 200, the three articles and the page; the
  search finds four posts; no text contains anything the four patterns match.\<close>

definition demo_world :: world where
  "demo_world =
     \<lparr> newsapi_key = Some ''k1'',
       twitter_credentials = Some (''a'', ''b'', ''c'', ''d''),
       shortName = (\<lambda>ticker. Inr (Some ''Apple Inc.'')),
       requests_get = (\<lambda>url. Inr \<lparr> status_code = 200, json = Inr demo_news,
                                    article_elements = Inr demo_page \<rparr>),
       search_tweets = (\<lambda>query. Inr demo_posts),
       polarity_scores = demo_scores,
       re_sub = (\<lambda>p repl s. s),
       now = 4,
       strftime_date = (\<lambda>t. ''2024-03-02''),
       strftime_datetime = demo_strftime \<rparr>"

text \<open>The same world with the news API answering 500.\<close>

definition down_world :: world where
  "down_world = demo_world
     \<lparr> requests_get := (\<lambda>url. if take 19 url = ''https://newsapi.org''
                               then Inr \<lparr> status_code = 500, json = Inl ''no body'',
                                          article_elements = Inl ''no page'' \<rparr>
                               else Inr \<lparr> status_code = 200, json = Inl ''no body'',
                                          article_elements = Inr demo_page \<rparr>) \<rparr>"

text \<open>The second article of the news response and the first kept post, as the collectors
  store them.\<close>

definition demo_article_down :: article where
  "demo_article_down =
     \<lparr> a_source = Some ''Newswire'', a_title = Some headline_down,
       a_published_at = Some ''2024-03-01T15:30:00Z'', a_url = Some ''https://example.org/a'',
       a_sentiment = \<lparr> compound = - 0.05, positive = 0, negative = 0.3, neutral = 0.7,
                       label = ''negative'' \<rparr> \<rparr>"

definition demo_tweet_up :: tweet_data where
  "demo_tweet_up =
     \<lparr> t_id = ''101'', t_created_at = ''2024-03-01 10:15:00'', t_text = headline_up,
       user_followers = 1000, retweet_count = 1, favorite_count = 2,
       t_sentiment = \<lparr> compound = 0.05, positive = 0.2, negative = 0, neutral = 0.8,
                       label = ''positive'' \<rparr> \<rparr>"


text \<open>Aggregates of that world: the first day of the news, the two hours of the posts.\<close>

definition demo_day :: daily_average where
  "demo_day = \<lparr> da_date = ''2024-03-01'', da_articles_count = 2, da_avg_sentiment = 0,
                 da_positive_ratio = 0.5, da_negative_ratio = 0.5, da_neutral_ratio = 0 \<rparr>"

definition demo_hour :: hourly_average where
  "demo_hour = \<lparr> ha_date_hour = ''2024-03-01 10'', ha_tweets_count = 2, ha_avg_sentiment = 0,
                  ha_weighted_sentiment = 0.02, ha_positive_ratio = 0.5,
                  ha_negative_ratio = 0.5, ha_neutral_ratio = 0 \<rparr>"

definition demo_hour_late :: hourly_average where
  "demo_hour_late = \<lparr> ha_date_hour = ''2024-03-01 11'', ha_tweets_count = 1, ha_avg_sentiment = 0,
                  ha_weighted_sentiment = 0, ha_positive_ratio = 0,
                  ha_negative_ratio = 0, ha_neutral_ratio = 1 \<rparr>"





section \<open>A concrete batch\<close>

text \<open>Two tickers, price and news phases on, the social phase off, nothing on disk before;
  the price provider knows only the first ticker.\<close>

definition demo_dirs :: dirs where
  "demo_dirs = \<lparr> price_dir = ''out/price_data'', news_dir = ''out/news_sentiment'',
                  social_dir = ''out/social_sentiment'' \<rparr>"

definition one_ticker_world :: price_world where
  "one_ticker_world = \<lparr> history = (\<lambda>sym period interval.
                            if sym = ''AAPL'' then Inr (map flat_bar six_stamps) else Inr []),
                         price_now = ''2024-01-04 08:00:00'' \<rparr>"

definition demo_batch :: batch_state where
  "demo_batch = collect_sentiment_data_batch demo_dirs one_ticker_world demo_world
                  (\<lambda>c ts. rev ts) [''AAPL'', ''NOPE''] ''stock'' True True False Map.empty"



section \<open>Lemmas about the price loops\<close>

lemma fold_update_length:
  "length (fold (\<lambda>i ys. ys[i := f i (ys ! i)]) is xs) = length xs"
  by (induction "is" arbitrary: xs) auto

lemma fold_update_nth:
  "j < length xs \<Longrightarrow>
   fold (\<lambda>i ys. ys[i := f i (ys ! i)]) [a..<b] xs ! j =
     (if a \<le> j \<and> j < b then f j (xs ! j) else xs ! j)"
proof (induction b arbitrary: j)
  case 0
  then show ?case by simp
next
  case (Suc b)
  show ?case
  proof (cases "a \<le> b")
    case True
    define ys where "ys = fold (\<lambda>i ys. ys[i := f i (ys ! i)]) [a..<b] xs"
    have len: "length ys = length xs"
      by (simp add: ys_def fold_update_length)
    have step: "fold (\<lambda>i ys. ys[i := f i (ys ! i)]) [a..<Suc b] xs = ys[b := f b (ys ! b)]"
      using True by (simp add: ys_def)
    show ?thesis
    proof (cases "j = b")
      case jb: True
      have "ys ! b = xs ! b"
        using Suc.IH [of b] Suc.prems jb by (simp add: ys_def)
      then show ?thesis
        unfolding step using jb True Suc.prems len by simp
    next
      case False
      then show ?thesis
        unfolding step using Suc.IH [of j] Suc.prems len by (auto simp: ys_def)
    qed
  next
    case False
    then show ?thesis by auto
  qed
qed

lemma set_volatility_eq: "set_volatility closes = (\<lambda>i ys. ys[i := vol_upd closes i (ys ! i)])"
  by (simp add: set_volatility_def vol_upd_def fun_eq_iff Let_def)

lemma set_momentum_eq: "set_momentum closes = (\<lambda>i ys. ys[i := mom_upd closes i (ys ! i)])"
  by (simp add: set_momentum_def mom_upd_def fun_eq_iff Let_def)

lemma set_volume_ratio_eq: "set_volume_ratio volumes = (\<lambda>i ys. ys[i := ratio_upd volumes i (ys ! i)])"
  by (simp add: set_volume_ratio_def ratio_upd_def fun_eq_iff Let_def)

lemma add_indicators_length: "length (add_indicators hist pd) = length pd"
  by (simp add: add_indicators_def Let_def set_volatility_eq set_momentum_eq set_volume_ratio_eq fold_update_length)

lemma add_indicators_nth:
  "j < length pd \<Longrightarrow>
   add_indicators hist pd ! j =
     (if 10 < length pd \<and> 5 \<le> j
      then ratio_upd (map bar_Volume hist) j (mom_upd (map bar_Close hist) j (vol_upd (map bar_Close hist) j (pd ! j)))
      else pd ! j)"
  by (simp add: add_indicators_def Let_def set_volatility_eq set_momentum_eq set_volume_ratio_eq fold_update_length fold_update_nth)


section \<open>The price collector\<close>

lemma collect_price_data_ok:
  assumes "history W (if asset_type \<noteq> ''crypto'' then ticker else ticker @ ''-USD'') period interval = Inr hist"
    and "hist \<noteq> []"
  shows "price_data_of (collect_price_data W ticker asset_type period interval)
           = add_indicators hist (map to_data_point hist)"
  using assms by (simp add: collect_price_data_def Let_def)

lemma price_row:
  assumes "history W (if asset_type \<noteq> ''crypto'' then ticker else ticker @ ''-USD'') period interval = Inr hist"
    and "i < length hist"
  shows "price_data_of (collect_price_data W ticker asset_type period interval) ! i =
     (if 10 < length hist \<and> 5 \<le> i
      then ratio_upd (map bar_Volume hist) i (mom_upd (map bar_Close hist) i
             (vol_upd (map bar_Close hist) i (to_data_point (hist ! i))))
      else to_data_point (hist ! i))"
proof -
  from assms(2) have ne: "hist \<noteq> []" by auto
  show ?thesis
    using assms(2) by (simp add: collect_price_data_ok [OF assms(1) ne] add_indicators_nth)
qed

lemma price_length:
  assumes "history W (if asset_type \<noteq> ''crypto'' then ticker else ticker @ ''-USD'') period interval = Inr hist"
  shows "length (price_data_of (collect_price_data W ticker asset_type period interval)) = length hist"
  using assms by (simp add: collect_price_data_def Let_def add_indicators_length)

lemma vol_upd_fields [simp]:
  "volatility_5period (vol_upd c i p) = Some (fround (fmul (fdiv (np_std (slice c (i - 5) i)) (np_mean (slice c (i - 5) i))) (Some 100)) 2)"
  "momentum_5period (vol_upd c i p) = momentum_5period p"
  "volume_ratio_5period (vol_upd c i p) = volume_ratio_5period p"
  by (simp_all add: vol_upd_def)

lemma mom_upd_fields [simp]:
  "volatility_5period (mom_upd c i p) = volatility_5period p"
  "momentum_5period (mom_upd c i p) = Some (fround (fmul (fdiv (fsub (c ! i) (c ! (i - 5))) (c ! (i - 5))) (Some 100)) 2)"
  "volume_ratio_5period (mom_upd c i p) = volume_ratio_5period p"
  by (simp_all add: mom_upd_def)

lemma ratio_upd_fields [simp]:
  "volatility_5period (ratio_upd v i p) = volatility_5period p"
  "momentum_5period (ratio_upd v i p) = momentum_5period p"
  by (simp_all add: ratio_upd_def)

lemma to_data_point_fields [simp]:
  "volatility_5period (to_data_point b) = None"
  "momentum_5period (to_data_point b) = None"
  "volume_ratio_5period (to_data_point b) = None"
  by (simp_all add: to_data_point_def)

text \<open>
  Claim C2, as amended. For any series the provider returns, the price list has one row
  per bar, and \<^verbatim>\<open>volatility_5period\<close> and \<^verbatim>\<open>momentum_5period\<close> are attached to the row
  at index \<open>i\<close> exactly when the series has more than 10 rows and \<open>5 \<le> i\<close>: line 144
  guards the three loops with \<^verbatim>\<open>len(price_data) > 10\<close>, so a series of 6 to 10 rows
  carries no derived field at all.
\<close>

theorem indicators_attached_from_index_5:
  assumes "history W (if asset_type \<noteq> ''crypto'' then ticker else ticker @ ''-USD'') period interval = Inr hist"
    and "i < length hist"
  shows "length (price_data_of (collect_price_data W ticker asset_type period interval)) = length hist
       \<and> (volatility_5period (price_data_of (collect_price_data W ticker asset_type period interval) ! i) \<noteq> None
            \<longleftrightarrow> 10 < length hist \<and> 5 \<le> i)
       \<and> (momentum_5period (price_data_of (collect_price_data W ticker asset_type period interval) ! i) \<noteq> None
            \<longleftrightarrow> 10 < length hist \<and> 5 \<le> i)"
  by (simp add: price_row [OF assms] price_length [OF assms(1)])

text \<open>
  Claim C2 as stated fails: a series of ten bars has at least six points, and its sixth
  point (index 5) carries neither field.
\<close>

theorem ten_points_no_indicators:
  "length (price_data_of (collect_price_data (rising_world 10) ''MSFT'' ''stock'' ''30d'' ''1h'')) = 10
   \<and> volatility_5period (price_data_of (collect_price_data (rising_world 10) ''MSFT'' ''stock'' ''30d'' ''1h'') ! 5) = None
   \<and> momentum_5period (price_data_of (collect_price_data (rising_world 10) ''MSFT'' ''stock'' ''30d'' ''1h'') ! 5) = None"
  by (simp add: collect_price_data_def rising_world_def add_indicators_def Let_def)


lemma map_const_replicate:
  "\<forall>x\<in>set xs. f x = c \<Longrightarrow> map f xs = replicate (length xs) c"
  by (induction xs) auto

lemma slice_replicate:
  "5 \<le> i \<Longrightarrow> i < n \<Longrightarrow> slice (replicate n c) (i - 5) i = replicate 5 c"
  by (simp add: slice_def min_def)

lemma np_mean_replicate:
  "0 < k \<Longrightarrow> np_mean (replicate k (Some x)) = Some x"
  by (simp add: np_mean_def sum_list_replicate)

lemma np_std_replicate:
  "0 < k \<Longrightarrow> np_std (replicate k (Some x)) = Some 0"
  by (simp add: np_std_def np_mean_replicate sum_list_replicate)

lemma py_round_0: "py_round 0 n = 0"
  by (simp add: py_round_def)

lemma py_round_1: "py_round 1 n = 1"
  by (simp add: py_round_def Let_def)

lemma flat_row:
  assumes "\<forall>b\<in>set hist. bar_Close b = Some 100 \<and> bar_Volume b = Some 1000"
    and "5 \<le> i" and "i < length hist"
  shows "volatility_5period (vol_upd (map bar_Close hist) i p) = Some (Some 0)"
    and "momentum_5period (mom_upd (map bar_Close hist) i p) = Some (Some 0)"
    and "volume_ratio_5period (ratio_upd (map bar_Volume hist) i p) = Some (Some 1)"
proof -
  have c: "map bar_Close hist = replicate (length hist) (Some 100)"
    using assms(1) by (simp add: map_const_replicate)
  have v: "map bar_Volume hist = replicate (length hist) (Some 1000)"
    using assms(1) by (simp add: map_const_replicate)
  show "volatility_5period (vol_upd (map bar_Close hist) i p) = Some (Some 0)"
    using assms(2,3)
    by (simp add: c slice_replicate np_mean_replicate np_std_replicate
        fdiv_def fmul_def fround_def py_round_0)
  show "momentum_5period (mom_upd (map bar_Close hist) i p) = Some (Some 0)"
    using assms(2,3) by (simp add: c fsub_def fdiv_def fmul_def fround_def py_round_0)
  show "volume_ratio_5period (ratio_upd (map bar_Volume hist) i p) = Some (Some 1)"
    using assms(2,3)
    by (simp add: v ratio_upd_def slice_replicate np_mean_replicate fpos_def
        fdiv_def fround_def py_round_1)
qed

text \<open>
  Claim C1, as amended. For a series of bars that all close at 100 on volume 1000, the
  rows at index 5 and above carry \<^verbatim>\<open>momentum_5period = 0.0\<close>,
  \<^verbatim>\<open>volume_ratio_5period = 1.0\<close> (and \<^verbatim>\<open>volatility_5period = 0.0\<close>) when the series has
  more than 10 rows; otherwise, and so for exactly 6 bars, no row carries a derived
  field.
\<close>

theorem flat_series_indicators:
  assumes "history W (if asset_type \<noteq> ''crypto'' then ticker else ticker @ ''-USD'') period interval = Inr hist"
    and "\<forall>b\<in>set hist. bar_Close b = Some 100 \<and> bar_Volume b = Some 1000"
    and "i < length hist"
  shows "length (price_data_of (collect_price_data W ticker asset_type period interval)) = length hist
       \<and> (if 10 < length hist \<and> 5 \<le> i
          then momentum_5period (price_data_of (collect_price_data W ticker asset_type period interval) ! i) = Some (Some 0)
             \<and> volume_ratio_5period (price_data_of (collect_price_data W ticker asset_type period interval) ! i) = Some (Some 1)
             \<and> volatility_5period (price_data_of (collect_price_data W ticker asset_type period interval) ! i) = Some (Some 0)
          else momentum_5period (price_data_of (collect_price_data W ticker asset_type period interval) ! i) = None
             \<and> volume_ratio_5period (price_data_of (collect_price_data W ticker asset_type period interval) ! i) = None
             \<and> volatility_5period (price_data_of (collect_price_data W ticker asset_type period interval) ! i) = None)"
proof (cases "10 < length hist \<and> 5 \<le> i")
  case True
  then have i5: "5 \<le> i" by simp
  show ?thesis
    using True flat_row [OF assms(2) i5 assms(3)]
    by (simp add: price_row [OF assms(1,3)] price_length [OF assms(1)])
next
  case False
  then have "price_data_of (collect_price_data W ticker asset_type period interval) ! i
      = to_data_point (hist ! i)"
    by (simp only: price_row [OF assms(1,3)] if_False)
  with False show ?thesis
    by (simp only: price_length [OF assms(1)] to_data_point_fields if_False simp_thms)
qed

theorem flat_series_indicators_witness:
  "length (price_data_of (collect_price_data eleven_flat_world ''AAPL'' ''stock'' ''30d'' ''1h'')) = 11
   \<and> momentum_5period (price_data_of (collect_price_data eleven_flat_world ''AAPL'' ''stock'' ''30d'' ''1h'') ! 5) = Some (Some 0)
   \<and> volume_ratio_5period (price_data_of (collect_price_data eleven_flat_world ''AAPL'' ''stock'' ''30d'' ''1h'') ! 5) = Some (Some 1)"
  using flat_series_indicators [of eleven_flat_world "''stock''" "''AAPL''" "''30d''" "''1h''"
      "map flat_bar eleven_stamps" 5]
  by (simp add: eleven_flat_world_def eleven_stamps_def six_stamps_def flat_bar_def)

text \<open>
  Claim C1 as stated fails: with exactly six flat bars the row at index 5 has no
  \<^verbatim>\<open>momentum_5period\<close> and no \<^verbatim>\<open>volume_ratio_5period\<close>.
\<close>

theorem six_flat_bars_no_indicator_row:
  "length (price_data_of (collect_price_data six_flat_world ''AAPL'' ''stock'' ''30d'' ''1h'')) = 6
   \<and> momentum_5period (price_data_of (collect_price_data six_flat_world ''AAPL'' ''stock'' ''30d'' ''1h'') ! 5) = None
   \<and> volume_ratio_5period (price_data_of (collect_price_data six_flat_world ''AAPL'' ''stock'' ''30d'' ''1h'') ! 5) = None"
  by (simp add: collect_price_data_def six_flat_world_def six_stamps_def add_indicators_def
      Let_def to_data_point_def)

theorem indicators_attached_from_index_5_witness:
  "length (price_data_of (collect_price_data (rising_world 12) ''BTC'' ''crypto'' ''30d'' ''1h'')) = 12
   \<and> volatility_5period (price_data_of (collect_price_data (rising_world 12) ''BTC'' ''crypto'' ''30d'' ''1h'') ! 5) \<noteq> None
   \<and> momentum_5period (price_data_of (collect_price_data (rising_world 12) ''BTC'' ''crypto'' ''30d'' ''1h'') ! 5) \<noteq> None
   \<and> volatility_5period (price_data_of (collect_price_data (rising_world 12) ''BTC'' ''crypto'' ''30d'' ''1h'') ! 4) = None
   \<and> momentum_5period (price_data_of (collect_price_data (rising_world 12) ''BTC'' ''crypto'' ''30d'' ''1h'') ! 4) = None"
  using indicators_attached_from_index_5 [of "rising_world 12" "''crypto''" "''BTC''" "''30d''" "''1h''"
      "map rising_bar [0..<12]" 5]
    indicators_attached_from_index_5 [of "rising_world 12" "''crypto''" "''BTC''" "''30d''" "''1h''"
      "map rising_bar [0..<12]" 4]
  by (simp add: rising_world_def)


section \<open>Dictionaries and grouping\<close>

lemma map_of_dict_setdefault:
  "map_of (dict_setdefault k v d) k' =
     (if k' = k \<and> map_of d k = None then Some v else map_of d k')"
proof (cases "k \<in> fst ` set d")
  case True
  then have "map_of d k \<noteq> None" by (simp add: map_of_eq_None_iff)
  with True show ?thesis by (simp add: dict_setdefault_def)
next
  case False
  then have "map_of d k = None" by (simp add: map_of_eq_None_iff)
  with False show ?thesis
    by (auto simp: dict_setdefault_def map_add_def split: option.splits)
qed

lemma map_of_dict_modify:
  "map_of (dict_modify k f d) k' = (if k' = k then map_option f (map_of d k) else map_of d k')"
  by (induction d) (auto simp: dict_modify_def)

lemma keys_dict_modify: "map fst (dict_modify k f d) = map fst d"
  by (induction d) (auto simp: dict_modify_def)

lemma distinct_dict_setdefault:
  "distinct (map fst d) \<Longrightarrow> distinct (map fst (dict_setdefault k v d))"
  by (auto simp: dict_setdefault_def)

lemma distinct_group_step:
  "distinct (map fst d) \<Longrightarrow> distinct (map fst (group_step key add init x d))"
  by (auto simp: group_step_def keys_dict_modify distinct_dict_setdefault split: option.splits)

lemma distinct_fold_group_step:
  "distinct (map fst d) \<Longrightarrow> distinct (map fst (fold (group_step key add init) xs d))"
  by (induction xs arbitrary: d) (auto simp: distinct_group_step)

lemma map_of_group_step:
  "map_of (group_step key add init x d) k =
     (if key x = Some k
      then Some (add x (case map_of d k of None \<Rightarrow> init | Some a \<Rightarrow> a))
      else map_of d k)"
  by (auto simp: group_step_def map_of_dict_modify map_of_dict_setdefault split: option.splits)

lemma map_of_fold_group_step:
  "map_of (fold (group_step key add init) xs d) k =
     (case map_of d k of
        None \<Rightarrow> (if filter (\<lambda>x. key x = Some k) xs = [] then None
                 else Some (fold add (filter (\<lambda>x. key x = Some k) xs) init))
      | Some a \<Rightarrow> Some (fold add (filter (\<lambda>x. key x = Some k) xs) a))"
proof (induction xs arbitrary: d)
  case Nil
  then show ?case by (simp split: option.splits)
next
  case (Cons x xs)
  show ?case
    by (simp add: Cons.IH map_of_group_step split: option.splits)
qed

lemma group_buckets:
  "(k, acc) \<in> set (fold (group_step key add init) xs []) \<longleftrightarrow>
     filter (\<lambda>x. key x = Some k) xs \<noteq> [] \<and> acc = fold add (filter (\<lambda>x. key x = Some k) xs) init"
proof -
  have d: "distinct (map fst (fold (group_step key add init) xs []))"
    by (rule distinct_fold_group_step) simp
  have "(k, acc) \<in> set (fold (group_step key add init) xs []) \<longleftrightarrow>
        map_of (fold (group_step key add init) xs []) k = Some acc"
    using d by simp
  then show ?thesis
    by (auto simp: map_of_fold_group_step)
qed

lemma set_map_filter: "set (List.map_filter f xs) = {y. \<exists>x\<in>set xs. f x = Some y}"
  by (induction xs) (auto split: option.splits)


section \<open>Rounding, counting and the accumulators\<close>

lemma py_round_err: "\<bar>py_round x n - x\<bar> \<le> 1 / (2 * 10 ^ n)"
proof -
  define y where "y = x * 10 ^ n"
  define f where "f = \<lfloor>y\<rfloor>"
  define d where "d = y - of_int f"
  define r :: real where "r = (if d < 1 / 2 then of_int f
          else if 1 / 2 < d then of_int (f + 1)
          else if even f then of_int f else of_int (f + 1))"
  have d0: "0 \<le> d" and d1: "d < 1"
    unfolding d_def f_def by linarith+
  have ry: "\<bar>r - y\<bar> \<le> 1 / 2"
    unfolding r_def using d0 d1 by (auto simp: d_def)
  have eq: "py_round x n - x = (r - y) / 10 ^ n"
    by (simp add: py_round_def Let_def r_def d_def f_def y_def diff_divide_distrib)
  have "\<bar>(r - y) / 10 ^ n\<bar> = \<bar>r - y\<bar> / 10 ^ n"
    by simp
  also have "\<dots> \<le> (1 / 2) / 10 ^ n"
    using ry by (rule divide_right_mono) simp
  finally show ?thesis
    by (simp add: eq)
qed

lemma ratios_sum:
  fixes p q r n :: nat
  assumes "p + q + r = n" and "0 < n"
  shows "\<bar>py_round (real p / real n) 3 + py_round (real q / real n) 3
          + py_round (real r / real n) 3 - 1\<bar> \<le> 3 / 2000"
proof -
  have e: "real p / real n + real q / real n + real r / real n = 1"
  proof -
    have "real p + real q + real r = real n"
      using assms(1) by (metis of_nat_add)
    then show ?thesis
      using assms(2) by (simp add: add_divide_distrib [symmetric])
  qed
  have a: "\<bar>py_round (real p / real n) 3 - real p / real n\<bar> \<le> 1 / 2000"
    using py_round_err [of "real p / real n" 3] by simp
  have b: "\<bar>py_round (real q / real n) 3 - real q / real n\<bar> \<le> 1 / 2000"
    using py_round_err [of "real q / real n" 3] by simp
  have c: "\<bar>py_round (real r / real n) 3 - real r / real n\<bar> \<le> 1 / 2000"
    using py_round_err [of "real r / real n" 3] by simp
  show ?thesis
    using a b c e by linarith
qed

lemma count_split:
  "count_label ''positive'' ss + count_label ''negative'' ss + count_other ss = length ss"
  by (induction ss) (auto simp: count_label_def count_other_def)

lemma fold_hour_add:
  "h_tweets (fold hour_add ts h) = h_tweets h + length ts"
  "h_sentiment_sum (fold hour_add ts h) = h_sentiment_sum h + (\<Sum>t\<leftarrow>ts. compound (t_sentiment t))"
  "h_sentiment_weighted_sum (fold hour_add ts h)
     = h_sentiment_weighted_sum h + (\<Sum>t\<leftarrow>ts. compound (t_sentiment t) * tweet_weight t)"
  "h_total_weight (fold hour_add ts h) = h_total_weight h + (\<Sum>t\<leftarrow>ts. tweet_weight t)"
  "h_positive_count (fold hour_add ts h)
     = h_positive_count h + count_label ''positive'' (map t_sentiment ts)"
  "h_negative_count (fold hour_add ts h)
     = h_negative_count h + count_label ''negative'' (map t_sentiment ts)"
  "h_neutral_count (fold hour_add ts h) = h_neutral_count h + count_other (map t_sentiment ts)"
  by (induction ts arbitrary: h; simp add: hour_add_def Let_def count_label_def count_other_def)+

lemma fold_day_add:
  "d_articles (fold day_add as d) = d_articles d + length as"
  "d_sentiment_sum (fold day_add as d) = d_sentiment_sum d + (\<Sum>a\<leftarrow>as. compound (a_sentiment a))"
  "d_positive_count (fold day_add as d)
     = d_positive_count d + count_label ''positive'' (map a_sentiment as)"
  "d_negative_count (fold day_add as d)
     = d_negative_count d + count_label ''negative'' (map a_sentiment as)"
  "d_neutral_count (fold day_add as d) = d_neutral_count d + count_other (map a_sentiment as)"
  by (induction as arbitrary: d; simp add: day_add_def Let_def count_label_def count_other_def)+

lemma hourly_step_eq: "hourly_step = group_step (\<lambda>t. Some (date_hour_of t)) hour_add hour_init"
  by (simp add: fun_eq_iff hourly_step_def group_step_def Let_def)

lemma daily_step_eq: "daily_step = group_step article_date day_add day_init"
  by (auto simp: fun_eq_iff daily_step_def group_step_def article_date_def Let_def split: option.splits)

text \<open>The posts of one hour, the articles of one day.\<close>

lemma hourly_bucket:
  assumes "ha \<in> set (hourly_averages_of tweets)"
  shows "filter (\<lambda>t. date_hour_of t = ha_date_hour ha) tweets \<noteq> []
       \<and> hourly_entry (ha_date_hour ha,
            fold hour_add (filter (\<lambda>t. date_hour_of t = ha_date_hour ha) tweets) hour_init) = Some ha"
proof -
  from assms obtain k acc where
    in_d: "(k, acc) \<in> set (fold hourly_step tweets [])" and e: "hourly_entry (k, acc) = Some ha"
    by (auto simp: hourly_averages_of_def set_map_filter)
  from e have k: "ha_date_hour ha = k"
    by (auto simp: hourly_entry_def Let_def split: if_splits)
  from in_d show ?thesis
    using e by (simp add: hourly_step_eq group_buckets k)
qed

lemma daily_bucket:
  assumes "da \<in> set (daily_averages_of articles)"
  shows "filter (\<lambda>a. article_date a = Some (da_date da)) articles \<noteq> []
       \<and> daily_entry (da_date da,
            fold day_add (filter (\<lambda>a. article_date a = Some (da_date da)) articles) day_init) = Some da"
proof -
  from assms obtain k acc where
    in_d: "(k, acc) \<in> set (fold daily_step articles [])" and e: "daily_entry (k, acc) = Some da"
    by (auto simp: daily_averages_of_def set_map_filter)
  from e have k: "da_date da = k"
    by (auto simp: daily_entry_def Let_def split: if_splits)
  from in_d show ?thesis
    using e by (simp add: daily_step_eq group_buckets k)
qed


section \<open>Labels\<close>

lemma label_sentiment_entry:
  "label (sentiment_entry s) =
     (if compound (sentiment_entry s) \<ge> 0.05 then ''positive''
      else if compound (sentiment_entry s) \<le> - 0.05 then ''negative'' else ''neutral'')"
  by (simp add: sentiment_entry_def sentiment_label_def)

lemma scraped_article_label:
  "scraped_article W src el = Some a \<Longrightarrow> \<exists>s. a_sentiment a = sentiment_entry s"
  by (auto simp: scraped_article_def Let_def split: option.splits)

lemma news_article_label:
  "news_article W ra = Some a \<Longrightarrow> \<exists>s. a_sentiment a = sentiment_entry s"
  by (auto simp: news_article_def Let_def split: if_splits)

lemma tweet_entry_label:
  "tweet_entry W start tweet = Some t \<Longrightarrow> \<exists>s. t_sentiment t = sentiment_entry s"
  by (auto simp: tweet_entry_def Let_def split: if_splits)

lemma page_articles_from:
  assumes a: "a \<in> set (page_articles W url)"
  shows "\<exists>src el. scraped_article W src el = Some a"
proof (cases "requests_get W url")
  case (Inl e)
  with a show ?thesis by (simp add: page_articles_def)
next
  case r: (Inr response)
  show ?thesis
  proof (cases "status_code response = 200")
    case False
    with a r show ?thesis by (simp add: page_articles_def)
  next
    case ok: True
    show ?thesis
    proof (cases "article_elements response")
      case (Inl e)
      with a r ok show ?thesis by (simp add: page_articles_def)
    next
      case (Inr els)
      with a r ok obtain src where "a \<in> set (List.map_filter (scraped_article W src) (take 20 els))"
        by (auto simp: page_articles_def split: list.splits)
      then show ?thesis
        by (auto simp: set_map_filter)
    qed
  qed
qed

lemma page_articles_label:
  "a \<in> set (page_articles W url) \<Longrightarrow> \<exists>s. a_sentiment a = sentiment_entry s"
  using page_articles_from scraped_article_label by blast

lemma alternative_label:
  "a \<in> set (articles_of (collect_alternative_news W ticker asset_type days_back))
     \<Longrightarrow> \<exists>s. a_sentiment a = sentiment_entry s"
  by (auto simp: collect_alternative_news_def Let_def split: if_splits dest: page_articles_label)

text \<open>The three ways the news collector ends.\<close>

lemma collect_news_sentiment_cases:
  "collect_news_sentiment W ticker asset_type days_back
      = collect_alternative_news W ticker asset_type days_back
   \<or> (\<exists>e. collect_news_sentiment W ticker asset_type days_back = NewsError ticker e)
   \<or> (\<exists>(nd::news_data) md. collect_news_sentiment W ticker asset_type days_back
          = NewsBundle ticker asset_type
              (daily_averages_of (List.map_filter (news_article W) (nd_articles nd)))
              (List.map_filter (news_article W) (nd_articles nd)) md)"
proof (cases "newsapi_key W")
  case None
  then show ?thesis by (simp add: collect_news_sentiment_def)
next
  case k: (Some key)
  show ?thesis
  proof (cases "key = []")
    case True
    with k show ?thesis by (simp add: collect_news_sentiment_def)
  next
    case ne: False
    show ?thesis
    proof (cases "news_query W ticker asset_type")
      case (Inl e)
      with k ne show ?thesis by (simp add: collect_news_sentiment_def)
    next
      case q: (Inr query)
      show ?thesis
      proof (cases "requests_get W (news_url W query days_back key)")
        case (Inl e)
        with k ne q show ?thesis by (simp add: collect_news_sentiment_def)
      next
        case r: (Inr response)
        show ?thesis
        proof (cases "status_code response = 200")
          case False
          with k ne q r show ?thesis by (simp add: collect_news_sentiment_def)
        next
          case ok: True
          show ?thesis
          proof (cases "json response")
            case (Inl e)
            with k ne q r ok show ?thesis by (simp add: collect_news_sentiment_def)
          next
            case j: (Inr nd)
            show ?thesis
            proof (cases "nd_status nd \<noteq> Str ''ok''
                \<or> (case nd_totalResults nd of Some n \<Rightarrow> n | None \<Rightarrow> 0) = 0")
              case True
              with k ne q r ok j show ?thesis by (simp add: collect_news_sentiment_def)
            next
              case False
              with k ne q r ok j
              have "\<exists>md. collect_news_sentiment W ticker asset_type days_back
                  = NewsBundle ticker asset_type
                      (daily_averages_of (List.map_filter (news_article W) (nd_articles nd)))
                      (List.map_filter (news_article W) (nd_articles nd)) md"
                by (simp add: collect_news_sentiment_def Let_def)
              then show ?thesis by blast
            qed
          qed
        qed
      qed
    qed
  qed
qed

lemma news_label:
  assumes "a \<in> set (articles_of (collect_news_sentiment W ticker asset_type days_back))"
  shows "\<exists>s. a_sentiment a = sentiment_entry s"
proof -
  consider (alt) "collect_news_sentiment W ticker asset_type days_back
                    = collect_alternative_news W ticker asset_type days_back"
    | (err) e where "collect_news_sentiment W ticker asset_type days_back = NewsError ticker e"
    | (ok) nd :: news_data and md where "collect_news_sentiment W ticker asset_type days_back
          = NewsBundle ticker asset_type
              (daily_averages_of (List.map_filter (news_article W) (nd_articles nd)))
              (List.map_filter (news_article W) (nd_articles nd)) md"
    using collect_news_sentiment_cases [of W ticker asset_type days_back] by blast
  then show ?thesis
  proof cases
    case alt
    with assms show ?thesis by (simp add: alternative_label)
  next
    case err
    with assms show ?thesis by simp
  next
    case ok
    with assms obtain ra where "news_article W ra = Some a"
      by (auto simp: set_map_filter)
    then show ?thesis by (rule news_article_label)
  qed
qed

lemma tweets_label:
  "t \<in> set (collected_tweets W start found) \<Longrightarrow> \<exists>s. t_sentiment t = sentiment_entry s"
  by (auto simp: collected_tweets_def set_map_filter dest: tweet_entry_label)

text \<open>
  Claim C4. Every article of the news collector (primary path or fallback), every article
  of the fallback called on its own, and every post the social collector keeps, stores
  the label \<^verbatim>\<open>positive\<close> when its compound score is at least 0.05, \<^verbatim>\<open>negative\<close> when it is
  at most -0.05, and \<^verbatim>\<open>neutral\<close> otherwise; a compound of exactly 0.05 is labelled
  \<^verbatim>\<open>positive\<close> and one of exactly -0.05 \<^verbatim>\<open>negative\<close>.
\<close>

theorem stored_label_follows_thresholds:
  "(a \<in> set (articles_of (collect_news_sentiment W ticker asset_type days_back))
      \<or> a \<in> set (articles_of (collect_alternative_news W ticker asset_type days_back))
     \<longrightarrow> label (a_sentiment a) =
           (if compound (a_sentiment a) \<ge> 0.05 then ''positive''
            else if compound (a_sentiment a) \<le> - 0.05 then ''negative'' else ''neutral''))
   \<and> (t \<in> set (collected_tweets W start_date found)
     \<longrightarrow> label (t_sentiment t) =
           (if compound (t_sentiment t) \<ge> 0.05 then ''positive''
            else if compound (t_sentiment t) \<le> - 0.05 then ''negative'' else ''neutral''))
   \<and> label (sentiment_entry (s\<lparr>sc_compound := 0.05\<rparr>)) = ''positive''
   \<and> label (sentiment_entry (s\<lparr>sc_compound := - 0.05\<rparr>)) = ''negative''"
proof (intro conjI impI)
  assume "a \<in> set (articles_of (collect_news_sentiment W ticker asset_type days_back))
      \<or> a \<in> set (articles_of (collect_alternative_news W ticker asset_type days_back))"
  then obtain s where "a_sentiment a = sentiment_entry s"
    using news_label alternative_label by blast
  then show "label (a_sentiment a) =
           (if compound (a_sentiment a) \<ge> 0.05 then ''positive''
            else if compound (a_sentiment a) \<le> - 0.05 then ''negative'' else ''neutral'')"
    by (simp only: label_sentiment_entry)
next
  assume "t \<in> set (collected_tweets W start_date found)"
  then obtain s where "t_sentiment t = sentiment_entry s"
    using tweets_label by blast
  then show "label (t_sentiment t) =
           (if compound (t_sentiment t) \<ge> 0.05 then ''positive''
            else if compound (t_sentiment t) \<le> - 0.05 then ''negative'' else ''neutral'')"
    by (simp only: label_sentiment_entry)
next
  show "label (sentiment_entry (s\<lparr>sc_compound := 0.05\<rparr>)) = ''positive''"
    by (simp add: sentiment_entry_def sentiment_label_def)
  show "label (sentiment_entry (s\<lparr>sc_compound := - 0.05\<rparr>)) = ''negative''"
    by (simp add: sentiment_entry_def sentiment_label_def)
qed

lemma demo_article_down_collected:
  "demo_article_down \<in> set (articles_of (collect_news_sentiment demo_world ''AAPL'' ''stock'' 7))"
  by code_simp

lemma demo_tweet_up_collected:
  "demo_tweet_up \<in> set (collected_tweets demo_world 0 demo_posts)"
  by code_simp

theorem stored_label_follows_thresholds_witness:
  "demo_article_down \<in> set (articles_of (collect_news_sentiment demo_world ''AAPL'' ''stock'' 7))
   \<and> compound (a_sentiment demo_article_down) = - 0.05
   \<and> label (a_sentiment demo_article_down) = ''negative''
   \<and> demo_tweet_up \<in> set (collected_tweets demo_world 0 demo_posts)
   \<and> compound (t_sentiment demo_tweet_up) = 0.05
   \<and> label (t_sentiment demo_tweet_up) = ''positive''"
proof -
  have c1: "compound (a_sentiment demo_article_down) = - 0.05"
    by (simp add: demo_article_down_def)
  have c2: "compound (t_sentiment demo_tweet_up) = 0.05"
    by (simp add: demo_tweet_up_def)
  from stored_label_follows_thresholds
    [of demo_article_down demo_world "''AAPL''" "''stock''" 7 demo_tweet_up 0 demo_posts]
  have "label (a_sentiment demo_article_down) = ''negative''"
    and "label (t_sentiment demo_tweet_up) = ''positive''"
    using demo_article_down_collected demo_tweet_up_collected by (simp_all add: c1 c2)
  then show ?thesis
    using demo_article_down_collected demo_tweet_up_collected c1 c2 by simp
qed

section \<open>The engagement weight\<close>

text \<open>
  Claim C7. The weight of a post with no followers, reposts or likes is 1, and the weight
  increases with each of its three arguments, the other two held fixed (for all integer
  arguments, so for the nonnegative ones).
\<close>

theorem weight_monotone:
  "weight 0 0 0 = 1
   \<and> (f \<le> f' \<longrightarrow> weight f r l \<le> weight f' r l)
   \<and> (r \<le> r' \<longrightarrow> weight f r l \<le> weight f r' l)
   \<and> (l \<le> l' \<longrightarrow> weight f r l \<le> weight f r l')
   \<and> (f < f' \<longrightarrow> weight f r l < weight f' r l)
   \<and> (r < r' \<longrightarrow> weight f r l < weight f r' l)
   \<and> (l < l' \<longrightarrow> weight f r l < weight f r l')"
  by (simp add: weight_def)

theorem weight_monotone_witness:
  "weight 0 0 0 = 1 \<and> weight 0 1 2 \<le> weight 1000 1 2 \<and> weight 1000 1 2 < weight 1000 4 2
   \<and> weight 1000 4 2 < weight 1000 4 7 \<and> weight 1000 1 2 = 2.3"
  using weight_monotone [of 0 1000 1 2 4 7] weight_monotone [of 1000 1000 1 2 4 2]
    weight_monotone [of 1000 1000 4 2 4 7]
  by (simp add: weight_def)

section \<open>The fallback\<close>

lemma alternative_ignores_key:
  "collect_alternative_news (W\<lparr>newsapi_key := k\<rparr>) ticker asset_type days_back
     = collect_alternative_news W ticker asset_type days_back"
proof -
  have h: "scraped_article (W\<lparr>newsapi_key := k\<rparr>) = scraped_article W"
    by (rule ext)+ (simp add: scraped_article_def Let_def split: option.splits)
  have "page_articles (W\<lparr>newsapi_key := k\<rparr>) url = page_articles W url" for url
    unfolding page_articles_def h by simp
  then have "page_articles (W\<lparr>newsapi_key := k\<rparr>) = page_articles W"
    by (rule ext)
  then show ?thesis
    by (simp add: collect_alternative_news_def Let_def)
qed

text \<open>
  Claim C3. When a credential is configured and the primary provider answers the request
  with status 500, the news collector returns what the fallback returns for the same
  ticker, asset type and \<open>days_back\<close>, and that is also what the collector returns when
  no credential is configured (the key is \<^verbatim>\<open>None\<close> or empty), the world being otherwise
  the same.
\<close>

theorem http_500_same_as_no_credential:
  assumes "newsapi_key W = Some key" and "key \<noteq> []"
    and "news_query W ticker asset_type = Inr query"
    and "requests_get W (news_url W query days_back key) = Inr response"
    and "status_code response = 500"
  shows "collect_news_sentiment W ticker asset_type days_back
           = collect_alternative_news W ticker asset_type days_back
       \<and> collect_news_sentiment (W\<lparr>newsapi_key := None\<rparr>) ticker asset_type days_back
           = collect_news_sentiment W ticker asset_type days_back
       \<and> collect_news_sentiment (W\<lparr>newsapi_key := Some []\<rparr>) ticker asset_type days_back
           = collect_news_sentiment W ticker asset_type days_back"
proof -
  have a: "collect_news_sentiment W ticker asset_type days_back
           = collect_alternative_news W ticker asset_type days_back"
    using assms by (simp add: collect_news_sentiment_def)
  have b: "collect_news_sentiment (W\<lparr>newsapi_key := None\<rparr>) ticker asset_type days_back
           = collect_alternative_news W ticker asset_type days_back"
    by (simp add: collect_news_sentiment_def alternative_ignores_key)
  have c: "collect_news_sentiment (W\<lparr>newsapi_key := Some []\<rparr>) ticker asset_type days_back
           = collect_alternative_news W ticker asset_type days_back"
    by (simp add: collect_news_sentiment_def alternative_ignores_key)
  show ?thesis
    by (simp only: a b c simp_thms)
qed

lemma down_world_query: "news_query down_world ''AAPL'' ''stock'' = Inr ''(AAPL OR Apple Inc.) stock''"
  by code_simp

lemma down_world_get:
  "requests_get down_world (news_url down_world ''(AAPL OR Apple Inc.) stock'' 7 ''k1'')
     = Inr \<lparr> status_code = 500, json = Inl ''no body'', article_elements = Inl ''no page'' \<rparr>"
  by code_simp

lemma down_world_key: "newsapi_key down_world = Some ''k1''"
  by code_simp

lemma down_world_fallback:
  "length (articles_of (collect_alternative_news down_world ''AAPL'' ''stock'' 7)) = 2"
  by code_simp

theorem http_500_same_as_no_credential_witness:
  "collect_news_sentiment (down_world\<lparr>newsapi_key := None\<rparr>) ''AAPL'' ''stock'' 7
     = collect_news_sentiment down_world ''AAPL'' ''stock'' 7
   \<and> length (articles_of (collect_news_sentiment down_world ''AAPL'' ''stock'' 7)) = 2"
  using http_500_same_as_no_credential [OF down_world_key _ down_world_query down_world_get]
    down_world_fallback
  by simp


section \<open>The buckets of the two aggregations\<close>

lemma hourly_entry_of_bucket:
  assumes "ha \<in> set (hourly_averages_of tweets)"
  shows "hour_posts tweets (ha_date_hour ha) \<noteq> []"
    and "hourly_entry (ha_date_hour ha,
           fold hour_add (hour_posts tweets (ha_date_hour ha)) hour_init) = Some ha"
  using hourly_bucket [OF assms] by (simp_all add: hour_posts_def)

lemma daily_entry_of_bucket:
  assumes "da \<in> set (daily_averages_of articles)"
  shows "day_articles articles (da_date da) \<noteq> []"
    and "daily_entry (da_date da,
           fold day_add (day_articles articles (da_date da)) day_init) = Some da"
  using daily_bucket [OF assms] by (simp_all add: day_articles_def)

lemma hourly_entry_Some:
  assumes "hourly_entry (k, acc) = Some ha"
  shows "0 < h_tweets acc" and "ha_date_hour ha = k" and "ha_tweets_count ha = h_tweets acc"
    and "ha_avg_sentiment ha = py_round (h_sentiment_sum acc / real (h_tweets acc)) 3"
    and "ha_weighted_sentiment ha =
           py_round (if 0 < h_total_weight acc
                     then h_sentiment_weighted_sum acc / h_total_weight acc
                     else h_sentiment_sum acc / real (h_tweets acc)) 3"
    and "ha_positive_ratio ha = py_round (real (h_positive_count acc) / real (h_tweets acc)) 3"
    and "ha_negative_ratio ha = py_round (real (h_negative_count acc) / real (h_tweets acc)) 3"
    and "ha_neutral_ratio ha = py_round (real (h_neutral_count acc) / real (h_tweets acc)) 3"
proof -
  show p: "0 < h_tweets acc"
    using assms by (simp add: hourly_entry_def split: if_splits)
  let ?avg = "h_sentiment_sum acc / real (h_tweets acc)"
  from assms p have ha: "ha =
      \<lparr> ha_date_hour = k, ha_tweets_count = h_tweets acc,
        ha_avg_sentiment = py_round ?avg 3,
        ha_weighted_sentiment =
          py_round (if 0 < h_total_weight acc
                    then h_sentiment_weighted_sum acc / h_total_weight acc else ?avg) 3,
        ha_positive_ratio = py_round (real (h_positive_count acc) / real (h_tweets acc)) 3,
        ha_negative_ratio = py_round (real (h_negative_count acc) / real (h_tweets acc)) 3,
        ha_neutral_ratio = py_round (real (h_neutral_count acc) / real (h_tweets acc)) 3 \<rparr>"
    by (simp add: hourly_entry_def Let_def)
  show "ha_date_hour ha = k" by (subst ha) simp
  show "ha_tweets_count ha = h_tweets acc" by (subst ha) simp
  show "ha_avg_sentiment ha = py_round ?avg 3" by (subst ha) simp
  show "ha_weighted_sentiment ha =
           py_round (if 0 < h_total_weight acc
                     then h_sentiment_weighted_sum acc / h_total_weight acc else ?avg) 3"
    by (subst ha) simp
  show "ha_positive_ratio ha = py_round (real (h_positive_count acc) / real (h_tweets acc)) 3"
    by (subst ha) simp
  show "ha_negative_ratio ha = py_round (real (h_negative_count acc) / real (h_tweets acc)) 3"
    by (subst ha) simp
  show "ha_neutral_ratio ha = py_round (real (h_neutral_count acc) / real (h_tweets acc)) 3"
    by (subst ha) simp
qed

lemma daily_entry_Some:
  assumes "daily_entry (k, acc) = Some da"
  shows "0 < d_articles acc" and "da_date da = k" and "da_articles_count da = d_articles acc"
    and "da_avg_sentiment da = py_round (d_sentiment_sum acc / real (d_articles acc)) 3"
    and "da_positive_ratio da = py_round (real (d_positive_count acc) / real (d_articles acc)) 3"
    and "da_negative_ratio da = py_round (real (d_negative_count acc) / real (d_articles acc)) 3"
    and "da_neutral_ratio da = py_round (real (d_neutral_count acc) / real (d_articles acc)) 3"
proof -
  show p: "0 < d_articles acc"
    using assms by (simp add: daily_entry_def split: if_splits)
  from assms p have da: "da =
      \<lparr> da_date = k, da_articles_count = d_articles acc,
        da_avg_sentiment = py_round (d_sentiment_sum acc / real (d_articles acc)) 3,
        da_positive_ratio = py_round (real (d_positive_count acc) / real (d_articles acc)) 3,
        da_negative_ratio = py_round (real (d_negative_count acc) / real (d_articles acc)) 3,
        da_neutral_ratio = py_round (real (d_neutral_count acc) / real (d_articles acc)) 3 \<rparr>"
    by (simp add: daily_entry_def Let_def)
  show "da_date da = k" by (subst da) simp
  show "da_articles_count da = d_articles acc" by (subst da) simp
  show "da_avg_sentiment da = py_round (d_sentiment_sum acc / real (d_articles acc)) 3"
    by (subst da) simp
  show "da_positive_ratio da = py_round (real (d_positive_count acc) / real (d_articles acc)) 3"
    by (subst da) simp
  show "da_negative_ratio da = py_round (real (d_negative_count acc) / real (d_articles acc)) 3"
    by (subst da) simp
  show "da_neutral_ratio da = py_round (real (d_neutral_count acc) / real (d_articles acc)) 3"
    by (subst da) simp
qed

lemma hourly_fields:
  assumes "ha \<in> set (hourly_averages_of tweets)"
  defines "P \<equiv> hour_posts tweets (ha_date_hour ha)"
  shows "P \<noteq> []"
    and "ha_tweets_count ha = length P"
    and "ha_avg_sentiment ha = py_round ((\<Sum>t\<leftarrow>P. compound (t_sentiment t)) / real (length P)) 3"
    and "ha_weighted_sentiment ha =
           py_round (if 0 < (\<Sum>t\<leftarrow>P. tweet_weight t)
                     then (\<Sum>t\<leftarrow>P. compound (t_sentiment t) * tweet_weight t) / (\<Sum>t\<leftarrow>P. tweet_weight t)
                     else (\<Sum>t\<leftarrow>P. compound (t_sentiment t)) / real (length P)) 3"
    and "ha_positive_ratio ha
           = py_round (real (count_label ''positive'' (map t_sentiment P)) / real (length P)) 3"
    and "ha_negative_ratio ha
           = py_round (real (count_label ''negative'' (map t_sentiment P)) / real (length P)) 3"
    and "ha_neutral_ratio ha
           = py_round (real (count_other (map t_sentiment P)) / real (length P)) 3"
proof -
  show "P \<noteq> []"
    unfolding P_def by (rule hourly_entry_of_bucket [OF assms(1)])
  have e: "hourly_entry (ha_date_hour ha, fold hour_add P hour_init) = Some ha"
    unfolding P_def by (rule hourly_entry_of_bucket [OF assms(1)])
  note f = hourly_entry_Some [OF e]
  show "ha_tweets_count ha = length P"
    using f(3) by (simp add: fold_hour_add hour_init_def)
  show "ha_avg_sentiment ha = py_round ((\<Sum>t\<leftarrow>P. compound (t_sentiment t)) / real (length P)) 3"
    using f(4) by (simp add: fold_hour_add hour_init_def)
  show "ha_weighted_sentiment ha =
           py_round (if 0 < (\<Sum>t\<leftarrow>P. tweet_weight t)
                     then (\<Sum>t\<leftarrow>P. compound (t_sentiment t) * tweet_weight t) / (\<Sum>t\<leftarrow>P. tweet_weight t)
                     else (\<Sum>t\<leftarrow>P. compound (t_sentiment t)) / real (length P)) 3"
    using f(5) by (simp add: fold_hour_add hour_init_def)
  show "ha_positive_ratio ha
           = py_round (real (count_label ''positive'' (map t_sentiment P)) / real (length P)) 3"
    using f(6) by (simp add: fold_hour_add hour_init_def)
  show "ha_negative_ratio ha
           = py_round (real (count_label ''negative'' (map t_sentiment P)) / real (length P)) 3"
    using f(7) by (simp add: fold_hour_add hour_init_def)
  show "ha_neutral_ratio ha
           = py_round (real (count_other (map t_sentiment P)) / real (length P)) 3"
    using f(8) by (simp add: fold_hour_add hour_init_def)
qed

lemma daily_fields:
  assumes "da \<in> set (daily_averages_of articles)"
  defines "P \<equiv> day_articles articles (da_date da)"
  shows "P \<noteq> []"
    and "da_articles_count da = length P"
    and "da_avg_sentiment da = py_round ((\<Sum>a\<leftarrow>P. compound (a_sentiment a)) / real (length P)) 3"
    and "da_positive_ratio da
           = py_round (real (count_label ''positive'' (map a_sentiment P)) / real (length P)) 3"
    and "da_negative_ratio da
           = py_round (real (count_label ''negative'' (map a_sentiment P)) / real (length P)) 3"
    and "da_neutral_ratio da
           = py_round (real (count_other (map a_sentiment P)) / real (length P)) 3"
proof -
  show "P \<noteq> []"
    unfolding P_def by (rule daily_entry_of_bucket [OF assms(1)])
  have e: "daily_entry (da_date da, fold day_add P day_init) = Some da"
    unfolding P_def by (rule daily_entry_of_bucket [OF assms(1)])
  note f = daily_entry_Some [OF e]
  show "da_articles_count da = length P"
    using f(3) by (simp add: fold_day_add day_init_def)
  show "da_avg_sentiment da = py_round ((\<Sum>a\<leftarrow>P. compound (a_sentiment a)) / real (length P)) 3"
    using f(4) by (simp add: fold_day_add day_init_def)
  show "da_positive_ratio da
           = py_round (real (count_label ''positive'' (map a_sentiment P)) / real (length P)) 3"
    using f(5) by (simp add: fold_day_add day_init_def)
  show "da_negative_ratio da
           = py_round (real (count_label ''negative'' (map a_sentiment P)) / real (length P)) 3"
    using f(6) by (simp add: fold_day_add day_init_def)
  show "da_neutral_ratio da
           = py_round (real (count_other (map a_sentiment P)) / real (length P)) 3"
    using f(7) by (simp add: fold_day_add day_init_def)
qed


section \<open>What the collectors emit\<close>

lemma daily_of_alternative:
  "daily_of (collect_alternative_news W ticker asset_type days_back) = []"
  by (simp add: collect_alternative_news_def Let_def)

lemma daily_of_news:
  assumes "da \<in> set (daily_of (collect_news_sentiment W ticker asset_type days_back))"
  shows "da \<in> set (daily_averages_of
            (articles_of (collect_news_sentiment W ticker asset_type days_back)))"
proof -
  consider (alt) "collect_news_sentiment W ticker asset_type days_back
                    = collect_alternative_news W ticker asset_type days_back"
    | (err) e where "collect_news_sentiment W ticker asset_type days_back = NewsError ticker e"
    | (ok) nd :: news_data and md where "collect_news_sentiment W ticker asset_type days_back
          = NewsBundle ticker asset_type
              (daily_averages_of (List.map_filter (news_article W) (nd_articles nd)))
              (List.map_filter (news_article W) (nd_articles nd)) md"
    using collect_news_sentiment_cases [of W ticker asset_type days_back] by blast
  then show ?thesis
  proof cases
    case alt
    with assms show ?thesis by (simp add: daily_of_alternative)
  next
    case err
    with assms show ?thesis by simp
  next
    case ok
    with assms show ?thesis by simp
  qed
qed

lemma hourly_averages_of_Nil: "hourly_averages_of [] = []"
  by (simp add: hourly_averages_of_def)

lemma social_bundle:
  assumes "twitter_credentials W = Some creds"
    and "search_tweets W (social_query ticker asset_type) = Inr found"
  shows "hourly_of (collect_social_sentiment W ticker asset_type days_back)
           = hourly_averages_of (kept_tweets W ticker asset_type days_back)"
    and "tweets_of (collect_social_sentiment W ticker asset_type days_back)
           = take 100 (kept_tweets W ticker asset_type days_back)"
    and "total_tweets_of (collect_social_sentiment W ticker asset_type days_back)
           = length (kept_tweets W ticker asset_type days_back)"
  using assms by (simp_all add: collect_social_sentiment_def kept_tweets_def Let_def)

lemma hourly_of_social:
  assumes "ha \<in> set (hourly_of (collect_social_sentiment W ticker asset_type days_back))"
  shows "ha \<in> set (hourly_averages_of (kept_tweets W ticker asset_type days_back))"
proof (cases "twitter_credentials W")
  case None
  with assms show ?thesis by (simp add: collect_social_sentiment_def)
next
  case c: (Some creds)
  show ?thesis
  proof (cases "search_tweets W (social_query ticker asset_type)")
    case (Inl e)
    with assms c show ?thesis by (simp add: collect_social_sentiment_def Let_def)
  next
    case (Inr found)
    with assms c show ?thesis by (simp add: social_bundle)
  qed
qed

section \<open>Ratios\<close>

text \<open>
  Claim C5. Every daily aggregate the news collector emits and every hourly aggregate the
  social collector emits stands for a non-empty bucket: its count is the number of items
  of the bucket and is not zero; the positive, negative and remaining (neutral) label
  counts add up to that count; each ratio is its label count divided by that count,
  rounded to 3 decimals; and the three ratios add up to 1 within three rounding errors
  (0.0015).
\<close>

theorem bucket_ratios_sum_to_one:
  "(da \<in> set (daily_of (collect_news_sentiment W ticker asset_type days_back)) \<longrightarrow>
      (let P = map a_sentiment
                 (day_articles (articles_of (collect_news_sentiment W ticker asset_type days_back))
                    (da_date da));
           n = length P
       in da_articles_count da = n \<and> 0 < n
          \<and> count_label ''positive'' P + count_label ''negative'' P + count_other P = n
          \<and> da_positive_ratio da = py_round (real (count_label ''positive'' P) / real n) 3
          \<and> da_negative_ratio da = py_round (real (count_label ''negative'' P) / real n) 3
          \<and> da_neutral_ratio da = py_round (real (count_other P) / real n) 3
          \<and> \<bar>da_positive_ratio da + da_negative_ratio da + da_neutral_ratio da - 1\<bar> \<le> 3 / 2000))
   \<and> (ha \<in> set (hourly_of (collect_social_sentiment W ticker' asset_type' days_back')) \<longrightarrow>
      (let P = map t_sentiment
                 (hour_posts (kept_tweets W ticker' asset_type' days_back') (ha_date_hour ha));
           n = length P
       in ha_tweets_count ha = n \<and> 0 < n
          \<and> count_label ''positive'' P + count_label ''negative'' P + count_other P = n
          \<and> ha_positive_ratio ha = py_round (real (count_label ''positive'' P) / real n) 3
          \<and> ha_negative_ratio ha = py_round (real (count_label ''negative'' P) / real n) 3
          \<and> ha_neutral_ratio ha = py_round (real (count_other P) / real n) 3
          \<and> \<bar>ha_positive_ratio ha + ha_negative_ratio ha + ha_neutral_ratio ha - 1\<bar> \<le> 3 / 2000))"
proof (intro conjI impI)
  assume "da \<in> set (daily_of (collect_news_sentiment W ticker asset_type days_back))"
  then have m: "da \<in> set (daily_averages_of
            (articles_of (collect_news_sentiment W ticker asset_type days_back)))"
    by (rule daily_of_news)
  define A where "A = day_articles (articles_of (collect_news_sentiment W ticker asset_type days_back))
                    (da_date da)"
  note f = daily_fields [OF m, folded A_def]
  have pos: "0 < length (map a_sentiment A)" using f(1) by simp
  have split: "count_label ''positive'' (map a_sentiment A)
      + count_label ''negative'' (map a_sentiment A) + count_other (map a_sentiment A)
      = length (map a_sentiment A)"
    by (rule count_split)
  have sum: "\<bar>da_positive_ratio da + da_negative_ratio da + da_neutral_ratio da - 1\<bar> \<le> 3 / 2000"
    using ratios_sum [OF split pos] by (simp add: f)
  show "let P = map a_sentiment
                 (day_articles (articles_of (collect_news_sentiment W ticker asset_type days_back))
                    (da_date da));
           n = length P
       in da_articles_count da = n \<and> 0 < n
          \<and> count_label ''positive'' P + count_label ''negative'' P + count_other P = n
          \<and> da_positive_ratio da = py_round (real (count_label ''positive'' P) / real n) 3
          \<and> da_negative_ratio da = py_round (real (count_label ''negative'' P) / real n) 3
          \<and> da_neutral_ratio da = py_round (real (count_other P) / real n) 3
          \<and> \<bar>da_positive_ratio da + da_negative_ratio da + da_neutral_ratio da - 1\<bar> \<le> 3 / 2000"
    unfolding Let_def A_def [symmetric]
    using pos split sum f(2,4,5,6) by simp
next
  assume "ha \<in> set (hourly_of (collect_social_sentiment W ticker' asset_type' days_back'))"
  then have m: "ha \<in> set (hourly_averages_of (kept_tweets W ticker' asset_type' days_back'))"
    by (rule hourly_of_social)
  define A where "A = hour_posts (kept_tweets W ticker' asset_type' days_back') (ha_date_hour ha)"
  note f = hourly_fields [OF m, folded A_def]
  have pos: "0 < length (map t_sentiment A)" using f(1) by simp
  have split: "count_label ''positive'' (map t_sentiment A)
      + count_label ''negative'' (map t_sentiment A) + count_other (map t_sentiment A)
      = length (map t_sentiment A)"
    by (rule count_split)
  have sum: "\<bar>ha_positive_ratio ha + ha_negative_ratio ha + ha_neutral_ratio ha - 1\<bar> \<le> 3 / 2000"
    using ratios_sum [OF split pos] by (simp add: f)
  show "let P = map t_sentiment
                 (hour_posts (kept_tweets W ticker' asset_type' days_back') (ha_date_hour ha));
           n = length P
       in ha_tweets_count ha = n \<and> 0 < n
          \<and> count_label ''positive'' P + count_label ''negative'' P + count_other P = n
          \<and> ha_positive_ratio ha = py_round (real (count_label ''positive'' P) / real n) 3
          \<and> ha_negative_ratio ha = py_round (real (count_label ''negative'' P) / real n) 3
          \<and> ha_neutral_ratio ha = py_round (real (count_other P) / real n) 3
          \<and> \<bar>ha_positive_ratio ha + ha_negative_ratio ha + ha_neutral_ratio ha - 1\<bar> \<le> 3 / 2000"
    unfolding Let_def A_def [symmetric]
    using pos split sum f(2,5,6,7) by simp
qed


lemma demo_day_emitted:
  "demo_day \<in> set (daily_of (collect_news_sentiment demo_world ''AAPL'' ''stock'' 7))"
  by code_simp

lemma demo_hour_emitted:
  "demo_hour \<in> set (hourly_of (collect_social_sentiment demo_world ''AAPL'' ''stock'' 3))"
  by code_simp

theorem bucket_ratios_sum_to_one_witness:
  "demo_day \<in> set (daily_of (collect_news_sentiment demo_world ''AAPL'' ''stock'' 7))
   \<and> demo_hour \<in> set (hourly_of (collect_social_sentiment demo_world ''AAPL'' ''stock'' 3))
   \<and> da_articles_count demo_day
       = length (map a_sentiment (day_articles
           (articles_of (collect_news_sentiment demo_world ''AAPL'' ''stock'' 7)) (da_date demo_day)))
   \<and> \<bar>da_positive_ratio demo_day + da_negative_ratio demo_day + da_neutral_ratio demo_day - 1\<bar>
        \<le> 3 / 2000
   \<and> ha_tweets_count demo_hour
       = length (map t_sentiment (hour_posts (kept_tweets demo_world ''AAPL'' ''stock'' 3)
           (ha_date_hour demo_hour)))
   \<and> \<bar>ha_positive_ratio demo_hour + ha_negative_ratio demo_hour + ha_neutral_ratio demo_hour - 1\<bar>
        \<le> 3 / 2000"
proof -
  note T = bucket_ratios_sum_to_one
    [of demo_day demo_world "''AAPL''" "''stock''" 7 demo_hour "''AAPL''" "''stock''" 3]
  note d = T [THEN conjunct1, THEN mp, OF demo_day_emitted, unfolded Let_def]
  note h = T [THEN conjunct2, THEN mp, OF demo_hour_emitted, unfolded Let_def]
  from d have d1: "da_articles_count demo_day
       = length (map a_sentiment (day_articles
           (articles_of (collect_news_sentiment demo_world ''AAPL'' ''stock'' 7)) (da_date demo_day)))"
    by (rule conjunct1)
  from d have d2: "\<bar>da_positive_ratio demo_day + da_negative_ratio demo_day
       + da_neutral_ratio demo_day - 1\<bar> \<le> 3 / 2000"
    by blast
  from h have h1: "ha_tweets_count demo_hour
       = length (map t_sentiment (hour_posts (kept_tweets demo_world ''AAPL'' ''stock'' 3)
           (ha_date_hour demo_hour)))"
    by (rule conjunct1)
  from h have h2: "\<bar>ha_positive_ratio demo_hour + ha_negative_ratio demo_hour
       + ha_neutral_ratio demo_hour - 1\<bar> \<le> 3 / 2000"
    by blast
  show ?thesis
    by (intro conjI demo_day_emitted demo_hour_emitted d1 d2 h1 h2)
qed

section \<open>The weighted average\<close>

lemma sum_weights_ge_length:
  "\<forall>t\<in>set ts. 1 \<le> tweet_weight t \<Longrightarrow> real (length ts) \<le> (\<Sum>t\<leftarrow>ts. tweet_weight t)"
  by (induction ts) auto








section \<open>Weights of real posts\<close>

lemma collected_tweets_counts:
  assumes "t \<in> set (collected_tweets W start found)"
  shows "\<exists>s\<in>set found. user_followers t = st_followers_count s
           \<and> retweet_count t = st_retweet_count s \<and> favorite_count t = st_favorite_count s"
proof -
  from assms obtain s where s: "s \<in> set (take 500 found)" and e: "tweet_entry W start s = Some t"
    by (auto simp: collected_tweets_def set_map_filter)
  from s have "s \<in> set found" by (rule in_set_takeD)
  moreover from e have "user_followers t = st_followers_count s
           \<and> retweet_count t = st_retweet_count s \<and> favorite_count t = st_favorite_count s"
    by (auto simp: tweet_entry_def Let_def split: if_splits)
  ultimately show ?thesis by blast
qed

text \<open>
  Claim C10. When every post the platform returns has nonnegative follower, repost and
  like counts, every post the collector keeps has weight at least 1; so in every emitted
  hourly aggregate the total weight is at least the number of posts, which is at least 1,
  the total weight is not zero, and \<^verbatim>\<open>weighted_sentiment\<close> is the weighted average: the
  fallback to the unweighted average is never taken.
\<close>

theorem weight_fallback_unreachable:
  assumes "search_tweets W (social_query ticker asset_type) = Inr found"
    and "\<forall>s\<in>set found. 0 \<le> st_followers_count s \<and> 0 \<le> st_retweet_count s
                         \<and> 0 \<le> st_favorite_count s"
  shows "(\<forall>t\<in>set (kept_tweets W ticker asset_type days_back). 1 \<le> tweet_weight t)
       \<and> (\<forall>ha\<in>set (hourly_of (collect_social_sentiment W ticker asset_type days_back)).
            (let P = hour_posts (kept_tweets W ticker asset_type days_back) (ha_date_hour ha);
                 total_weight = (\<Sum>t\<leftarrow>P. tweet_weight t)
             in 1 \<le> length P \<and> ha_tweets_count ha = length P
                \<and> real (length P) \<le> total_weight \<and> total_weight \<noteq> 0
                \<and> ha_weighted_sentiment ha =
                     py_round ((\<Sum>t\<leftarrow>P. compound (t_sentiment t) * tweet_weight t) / total_weight) 3))"
proof (intro conjI ballI)
  have w: "1 \<le> tweet_weight t" if "t \<in> set (kept_tweets W ticker asset_type days_back)" for t
  proof -
    from that assms(1) obtain s where "s \<in> set found"
      and "user_followers t = st_followers_count s"
      and "retweet_count t = st_retweet_count s" and "favorite_count t = st_favorite_count s"
      using collected_tweets_counts by (auto simp: kept_tweets_def) blast
    with assms(2) have "0 \<le> user_followers t" "0 \<le> retweet_count t" "0 \<le> favorite_count t"
      by auto
    then show ?thesis
      by (simp add: tweet_weight_def weight_def)
  qed
  show "1 \<le> tweet_weight t" if "t \<in> set (kept_tweets W ticker asset_type days_back)" for t
    using that by (rule w)
  fix ha
  assume "ha \<in> set (hourly_of (collect_social_sentiment W ticker asset_type days_back))"
  then have m: "ha \<in> set (hourly_averages_of (kept_tweets W ticker asset_type days_back))"
    by (rule hourly_of_social)
  define P where "P = hour_posts (kept_tweets W ticker asset_type days_back) (ha_date_hour ha)"
  note f = hourly_fields [OF m, folded P_def]
  have sub: "\<forall>t\<in>set P. 1 \<le> tweet_weight t"
    using w by (auto simp: P_def hour_posts_def)
  have len: "1 \<le> length P"
    using f(1) by (cases P) auto
  have ge: "real (length P) \<le> (\<Sum>t\<leftarrow>P. tweet_weight t)"
    using sub by (rule sum_weights_ge_length)
  with len have pos: "0 < (\<Sum>t\<leftarrow>P. tweet_weight t)"
    by linarith
  show "let P = hour_posts (kept_tweets W ticker asset_type days_back) (ha_date_hour ha);
            total_weight = (\<Sum>t\<leftarrow>P. tweet_weight t)
        in 1 \<le> length P \<and> ha_tweets_count ha = length P
           \<and> real (length P) \<le> total_weight \<and> total_weight \<noteq> 0
           \<and> ha_weighted_sentiment ha =
                py_round ((\<Sum>t\<leftarrow>P. compound (t_sentiment t) * tweet_weight t) / total_weight) 3"
    unfolding Let_def P_def [symmetric]
    using len ge pos f(2) f(4) by simp
qed

lemma demo_search: "search_tweets demo_world (social_query ''AAPL'' ''stock'') = Inr demo_posts"
  by code_simp

lemma demo_posts_nonneg:
  "\<forall>s\<in>set demo_posts. 0 \<le> st_followers_count s \<and> 0 \<le> st_retweet_count s
                         \<and> 0 \<le> st_favorite_count s"
  by (simp add: demo_posts_def demo_status_def)

lemma demo_hour_late_emitted:
  "demo_hour_late \<in> set (hourly_of (collect_social_sentiment demo_world ''AAPL'' ''stock'' 3))"
  by code_simp

theorem weight_fallback_unreachable_witness:
  "demo_hour_late \<in> set (hourly_of (collect_social_sentiment demo_world ''AAPL'' ''stock'' 3))
   \<and> ha_tweets_count demo_hour_late
       = length (hour_posts (kept_tweets demo_world ''AAPL'' ''stock'' 3) (ha_date_hour demo_hour_late))
   \<and> real (length (hour_posts (kept_tweets demo_world ''AAPL'' ''stock'' 3) (ha_date_hour demo_hour_late)))
       \<le> (\<Sum>t\<leftarrow>hour_posts (kept_tweets demo_world ''AAPL'' ''stock'' 3) (ha_date_hour demo_hour_late).
             tweet_weight t)
   \<and> (\<Sum>t\<leftarrow>hour_posts (kept_tweets demo_world ''AAPL'' ''stock'' 3) (ha_date_hour demo_hour_late).
             tweet_weight t) \<noteq> 0"
proof -
  from weight_fallback_unreachable [OF demo_search demo_posts_nonneg, of 3]
  have "\<forall>ha\<in>set (hourly_of (collect_social_sentiment demo_world ''AAPL'' ''stock'' 3)).
            (let P = hour_posts (kept_tweets demo_world ''AAPL'' ''stock'' 3) (ha_date_hour ha);
                 total_weight = (\<Sum>t\<leftarrow>P. tweet_weight t)
             in 1 \<le> length P \<and> ha_tweets_count ha = length P
                \<and> real (length P) \<le> total_weight \<and> total_weight \<noteq> 0
                \<and> ha_weighted_sentiment ha =
                     py_round ((\<Sum>t\<leftarrow>P. compound (t_sentiment t) * tweet_weight t) / total_weight) 3)"
    by (rule conjunct2)
  from bspec [OF this demo_hour_late_emitted] show ?thesis
    using demo_hour_late_emitted by (simp add: Let_def)
qed


section \<open>The cap on the embedded posts\<close>














section \<open>The completion loop\<close>

lemma file_path_ticker_inj: "file_path S c t = file_path S c t' \<longleftrightarrow> t = t'"
  by (simp add: file_path_def)

lemma file_path_cat_inj:
  assumes "file_path S c t = file_path S c' t'"
  shows "c = c'"
proof -
  from assms have "take 6 (rev (file_path S c t)) = take 6 (rev (file_path S c' t'))"
    by simp
  then show ?thesis
    by (cases c; cases c') (simp_all add: file_path_def)
qed

lemma cat_name_inj: "cat_name c = cat_name c' \<longleftrightarrow> c = c'"
  by (cases c; cases c') simp_all

lemma cat_name_not_error: "cat_name c \<noteq> cat_name c' @ ''_error''"
  by (cases c; cases c') simp_all

lemma cat_error_inj: "cat_name c @ ''_error'' = cat_name c' @ ''_error'' \<longleftrightarrow> c = c'"
  by (simp add: cat_name_inj)

lemma result_at_set_result:
  assumes "results st' = set_result t k v (results st)"
  shows "result_at st' t' k' = (if t' = t \<and> k' = k then Some v else result_at st t' k')"
  using assms by (auto simp: result_at_def set_result_def Let_def split: option.splits)

lemma outcome_cases:
  obtains (ok) d where "fut = Returned d" "error_of d = None"
  | (err) d e where "fut = Returned d" "error_of d = Some e"
  | (exn) e where "fut = Raised e"
  by (cases fut) auto

lemma handle_result_ok:
  assumes "error_of d = None"
  shows "files (handle_result S c (t, Returned d) st) p
           = (if p = file_path S c t then Some d else files st p)"
    and "result_at (handle_result S c (t, Returned d) st) t' k
           = (if t' = t \<and> k = cat_name c then Some (Data d) else result_at st t' k)"
proof -
  show "files (handle_result S c (t, Returned d) st) p
           = (if p = file_path S c t then Some d else files st p)"
    using assms by (simp add: handle_result_def)
  show "result_at (handle_result S c (t, Returned d) st) t' k
           = (if t' = t \<and> k = cat_name c then Some (Data d) else result_at st t' k)"
    by (rule result_at_set_result) (simp add: handle_result_def assms)
qed

lemma handle_result_err:
  assumes "error_of d = Some e"
  shows "files (handle_result S c (t, Returned d) st) p = files st p"
    and "result_at (handle_result S c (t, Returned d) st) t' k
           = (if t' = t \<and> k = cat_name c @ ''_error'' then Some (ErrorText e) else result_at st t' k)"
proof -
  show "files (handle_result S c (t, Returned d) st) p = files st p"
    using assms by (simp add: handle_result_def)
  show "result_at (handle_result S c (t, Returned d) st) t' k
           = (if t' = t \<and> k = cat_name c @ ''_error'' then Some (ErrorText e) else result_at st t' k)"
    by (rule result_at_set_result) (simp add: handle_result_def assms)
qed

lemma handle_result_exn:
  shows "files (handle_result S c (t, Raised e) st) p = files st p"
    and "result_at (handle_result S c (t, Raised e) st) t' k
           = (if t' = t \<and> k = cat_name c @ ''_error'' then Some (ErrorText e) else result_at st t' k)"
proof -
  show "files (handle_result S c (t, Raised e) st) p = files st p"
    by (simp add: handle_result_def)
  show "result_at (handle_result S c (t, Raised e) st) t' k
           = (if t' = t \<and> k = cat_name c @ ''_error'' then Some (ErrorText e) else result_at st t' k)"
    by (rule result_at_set_result) (simp add: handle_result_def)
qed

text \<open>A file changes only when a future returned a dictionary without an error, and then
  it holds that dictionary.\<close>

lemma handle_result_writes:
  assumes "files (handle_result S c item st) p \<noteq> files st p"
  shows "\<exists>t d. item = (t, Returned d) \<and> error_of d = None \<and> p = file_path S c t
            \<and> files (handle_result S c item st) p = Some d"
proof -
  obtain t fut where item: "item = (t, fut)" by (cases item)
  show ?thesis
  proof (cases fut rule: outcome_cases)
    case (ok d)
    with assms item show ?thesis
      by (auto simp: handle_result_ok split: if_splits)
  next
    case (err d e)
    with assms item show ?thesis by (simp add: handle_result_err)
  next
    case (exn e)
    with assms item show ?thesis by (simp add: handle_result_exn)
  qed
qed

lemma handle_result_records:
  assumes "result_at (handle_result S c item st) t k \<noteq> result_at st t k"
  shows "fst item = t \<and> (k = cat_name c \<or> k = cat_name c @ ''_error'')"
proof -
  obtain t' fut where item: "item = (t', fut)" by (cases item)
  show ?thesis
  proof (cases fut rule: outcome_cases)
    case (ok d)
    with assms item show ?thesis
      by (auto simp: handle_result_ok split: if_splits)
  next
    case (err d e)
    with assms item show ?thesis
      by (auto simp: handle_result_err split: if_splits)
  next
    case (exn e)
    with assms item show ?thesis
      by (auto simp: handle_result_exn split: if_splits)
  qed
qed

section \<open>One phase\<close>

lemma run_phase_Cons:
  "run_phase S c (item # completed) st = run_phase S c completed (handle_result S c item st)"
  by (simp add: run_phase_def)

lemma run_phase_append:
  "run_phase S c (xs @ ys) st = run_phase S c ys (run_phase S c xs st)"
  by (simp add: run_phase_def)

lemma run_phase_writes:
  "files (run_phase S c completed st) p \<noteq> files st p \<Longrightarrow>
   \<exists>t d. (t, Returned d) \<in> set completed \<and> error_of d = None \<and> p = file_path S c t
          \<and> files (run_phase S c completed st) p = Some d"
proof (induction completed arbitrary: st)
  case Nil
  then show ?case by (simp add: run_phase_def)
next
  case (Cons item completed)
  let ?st1 = "handle_result S c item st"
  show ?case
  proof (cases "files (run_phase S c completed ?st1) p = files ?st1 p")
    case False
    from Cons.IH [OF False] show ?thesis
      by (auto simp: run_phase_Cons)
  next
    case True
    with Cons.prems have "files ?st1 p \<noteq> files st p"
      by (simp add: run_phase_Cons)
    from handle_result_writes [OF this] True show ?thesis
      by (auto simp: run_phase_Cons)
  qed
qed

lemma run_phase_files_frame:
  assumes "\<forall>t\<in>fst ` set completed. p \<noteq> file_path S c t"
  shows "files (run_phase S c completed st) p = files st p"
proof (rule ccontr)
  assume "files (run_phase S c completed st) p \<noteq> files st p"
  from run_phase_writes [OF this] assms show False by force
qed

lemma run_phase_records:
  "result_at (run_phase S c completed st) t k \<noteq> result_at st t k \<Longrightarrow>
   t \<in> fst ` set completed \<and> (k = cat_name c \<or> k = cat_name c @ ''_error'')"
proof (induction completed arbitrary: st)
  case Nil
  then show ?case by (simp add: run_phase_def)
next
  case (Cons item completed)
  let ?st1 = "handle_result S c item st"
  show ?case
  proof (cases "result_at (run_phase S c completed ?st1) t k = result_at ?st1 t k")
    case False
    from Cons.IH [OF False] show ?thesis by auto
  next
    case True
    with Cons.prems have "result_at ?st1 t k \<noteq> result_at st t k"
      by (simp add: run_phase_Cons)
    from handle_result_records [OF this] show ?thesis by auto
  qed
qed

lemma run_phase_results_frame:
  assumes "t \<notin> fst ` set completed \<or> (k \<noteq> cat_name c \<and> k \<noteq> cat_name c @ ''_error'')"
  shows "result_at (run_phase S c completed st) t k = result_at st t k"
  using run_phase_records [of S c completed st t k] assms by blast

text \<open>What a phase leaves at the places of one ticker that completed once.\<close>

lemma run_phase_ticker:
  assumes d: "distinct (map fst completed)" and m: "(t, fut) \<in> set completed"
  shows "succeeded fut = Some d \<Longrightarrow>
           files (run_phase S c completed st) (file_path S c t) = Some d
           \<and> result_at (run_phase S c completed st) t (cat_name c) = Some (Data d)
           \<and> result_at (run_phase S c completed st) t (cat_name c @ ''_error'')
               = result_at st t (cat_name c @ ''_error'')"
    and "failure fut = Some e \<Longrightarrow>
           files (run_phase S c completed st) (file_path S c t) = files st (file_path S c t)
           \<and> result_at (run_phase S c completed st) t (cat_name c @ ''_error'') = Some (ErrorText e)
           \<and> result_at (run_phase S c completed st) t (cat_name c) = result_at st t (cat_name c)"
proof -
  from m obtain xs ys where split: "completed = xs @ (t, fut) # ys"
    by (auto dest: split_list)
  with d have nx: "t \<notin> fst ` set xs" and ny: "t \<notin> fst ` set ys"
    by auto
  define s1 where "s1 = run_phase S c xs st"
  define s2 where "s2 = handle_result S c (t, fut) s1"
  define st' where "st' = run_phase S c completed st"
  have st': "st' = run_phase S c ys s2"
    by (simp add: st'_def split run_phase_append run_phase_Cons s1_def s2_def)
  have fx: "files s1 (file_path S c t) = files st (file_path S c t)"
    unfolding s1_def using nx by (intro run_phase_files_frame) (auto simp: file_path_ticker_inj)
  have fy: "files st' (file_path S c t) = files s2 (file_path S c t)"
    unfolding st' using ny by (intro run_phase_files_frame) (auto simp: file_path_ticker_inj)
  have rx: "result_at s1 t k = result_at st t k" for k
    unfolding s1_def using nx by (intro run_phase_results_frame) simp
  have ry: "result_at st' t k = result_at s2 t k" for k
    unfolding st' using ny by (intro run_phase_results_frame) simp
  have A: "files st' (file_path S c t) = Some d
           \<and> result_at st' t (cat_name c) = Some (Data d)
           \<and> result_at st' t (cat_name c @ ''_error'') = result_at st t (cat_name c @ ''_error'')"
    if "succeeded fut = Some d"
  proof -
    from that have fut: "fut = Returned d" and ok: "error_of d = None"
      by (cases fut; simp split: if_splits)+
    show ?thesis
      by (simp add: fy ry s2_def fut handle_result_ok [OF ok] fx rx cat_name_not_error [symmetric])
  qed
  have B: "files st' (file_path S c t) = files st (file_path S c t)
           \<and> result_at st' t (cat_name c @ ''_error'') = Some (ErrorText e)
           \<and> result_at st' t (cat_name c) = result_at st t (cat_name c)"
    if "failure fut = Some e"
  proof (cases fut)
    case (Raised e')
    with that have "e' = e" by simp
    with Raised show ?thesis
      by (simp add: fy ry s2_def handle_result_exn fx rx cat_name_not_error)
  next
    case (Returned d')
    with that have err: "error_of d' = Some e" by simp
    show ?thesis
      by (simp add: fy ry s2_def Returned handle_result_err [OF err] fx rx cat_name_not_error)
  qed
  show "succeeded fut = Some d \<Longrightarrow>
           files (run_phase S c completed st) (file_path S c t) = Some d
           \<and> result_at (run_phase S c completed st) t (cat_name c) = Some (Data d)
           \<and> result_at (run_phase S c completed st) t (cat_name c @ ''_error'')
               = result_at st t (cat_name c @ ''_error'')"
    using A unfolding st'_def .
  show "failure fut = Some e \<Longrightarrow>
           files (run_phase S c completed st) (file_path S c t) = files st (file_path S c t)
           \<and> result_at (run_phase S c completed st) t (cat_name c @ ''_error'') = Some (ErrorText e)
           \<and> result_at (run_phase S c completed st) t (cat_name c) = result_at st t (cat_name c)"
    using B unfolding st'_def .
qed


section \<open>The batch\<close>

text \<open>The futures of one phase, in the order they complete.\<close>

lemma completed_distinct:
  "distinct ts \<Longrightarrow> distinct (map fst (map (\<lambda>ticker. (ticker, task ticker)) ts))"
  by (simp add: comp_def)

lemma completed_member:
  "t \<in> set ts \<Longrightarrow> (t, task t) \<in> set (map (\<lambda>ticker. (ticker, task ticker)) ts)"
  by auto

text \<open>A phase leaves the places of the other categories alone.\<close>

lemma other_phase:
  assumes "c' \<noteq> c"
  shows "files (run_phase S c' completed st) (file_path S c t) = files st (file_path S c t)"
    and "result_at (run_phase S c' completed st) t (cat_name c) = result_at st t (cat_name c)"
    and "result_at (run_phase S c' completed st) t (cat_name c @ ''_error'')
           = result_at st t (cat_name c @ ''_error'')"
proof -
  show "files (run_phase S c' completed st) (file_path S c t) = files st (file_path S c t)"
    using assms by (intro run_phase_files_frame) (auto dest: file_path_cat_inj)
  show "result_at (run_phase S c' completed st) t (cat_name c) = result_at st t (cat_name c)"
    using assms by (intro run_phase_results_frame) (simp add: cat_name_inj cat_name_not_error)
  show "result_at (run_phase S c' completed st) t (cat_name c @ ''_error'')
           = result_at st t (cat_name c @ ''_error'')"
    using assms by (intro run_phase_results_frame)
      (simp add: cat_name_inj cat_name_not_error [symmetric])
qed

lemma places_other_phase:
  "c' \<noteq> c \<Longrightarrow>
   places S c t (if on then run_phase S c' completed st else st) = places S c t st"
  by (simp add: places_def other_phase)

lemma places_own_phase:
  assumes "distinct ts" and "t \<in> set ts"
  shows "places S c t (run_phase S c (map (\<lambda>ticker. (ticker, task ticker)) ts) st)
     = (case task t of
          Returned d \<Rightarrow>
            (case error_of d of
               None \<Rightarrow> (Some d, Some (Data d), result_at st t (cat_name c @ ''_error''))
             | Some e \<Rightarrow> (files st (file_path S c t), result_at st t (cat_name c), Some (ErrorText e)))
        | Raised e \<Rightarrow> (files st (file_path S c t), result_at st t (cat_name c), Some (ErrorText e)))"
proof -
  have d: "distinct (map fst (map (\<lambda>ticker. (ticker, task ticker)) ts))"
    using assms(1) by (rule completed_distinct)
  have m: "(t, task t) \<in> set (map (\<lambda>ticker. (ticker, task ticker)) ts)"
    using assms(2) by (rule completed_member)
  show ?thesis
  proof (cases "task t" rule: outcome_cases)
    case (ok d')
    then have "succeeded (task t) = Some d'" by simp
    from run_phase_ticker(1) [OF d m this] ok show ?thesis
      by (simp add: places_def)
  next
    case (err d' e)
    then have "failure (task t) = Some e" by simp
    from run_phase_ticker(2) [OF d m this] err show ?thesis
      by (simp add: places_def)
  next
    case (exn e)
    then have "failure (task t) = Some e" by simp
    from run_phase_ticker(2) [OF d m this] exn show ?thesis
      by (simp add: places_def)
  qed
qed

lemma result_at_initial: "result_at \<lparr> results = Map.empty, files = fs \<rparr> t k = None"
  by (simp add: result_at_def)

lemma run_batch_places:
  assumes "\<forall>c. distinct (order c tickers) \<and> set (order c tickers) = set tickers"
    and "t \<in> set tickers" and "enabled c"
  shows "places S c t (run_batch S tasks order tickers enabled fs)
     = (case tasks c t of
          Returned d \<Rightarrow>
            (case error_of d of
               None \<Rightarrow> (Some d, Some (Data d), None)
             | Some e \<Rightarrow> (fs (file_path S c t), None, Some (ErrorText e)))
        | Raised e \<Rightarrow> (fs (file_path S c t), None, Some (ErrorText e)))"
proof -
  from assms have dist: "distinct (order c tickers)" and mem: "t \<in> set (order c tickers)"
    by auto
  define st0 where "st0 = \<lparr> results = Map.empty, files = fs \<rparr>"
  define ph where "ph c st = (if enabled c
     then run_phase S c (map (\<lambda>ticker. (ticker, tasks c ticker)) (order c tickers)) st else st)"
    for c st
  have batch: "run_batch S tasks order tickers enabled fs = ph Social (ph News (ph Price st0))"
    by (simp add: run_batch_def Let_def st0_def ph_def)
  have other: "places S c t (ph c' st) = places S c t st" if "c' \<noteq> c" for c' st
    using that by (simp add: ph_def places_other_phase)
  have own: "places S c t (ph c st)
     = (case tasks c t of
          Returned d \<Rightarrow>
            (case error_of d of
               None \<Rightarrow> (Some d, Some (Data d), result_at st t (cat_name c @ ''_error''))
             | Some e \<Rightarrow> (files st (file_path S c t), result_at st t (cat_name c), Some (ErrorText e)))
        | Raised e \<Rightarrow> (files st (file_path S c t), result_at st t (cat_name c), Some (ErrorText e)))"
    for st
    unfolding ph_def using assms(3) dist mem by (simp add: places_own_phase)
  have start: "places S c t st = places S c t st0 \<Longrightarrow>
      files st (file_path S c t) = fs (file_path S c t)
      \<and> result_at st t (cat_name c) = None \<and> result_at st t (cat_name c @ ''_error'') = None"
    for st
    by (simp add: places_def st0_def result_at_initial)
  have "\<exists>st. places S c t (run_batch S tasks order tickers enabled fs) = places S c t (ph c st)
            \<and> places S c t st = places S c t st0"
  proof (cases c)
    case Price
    then have "News \<noteq> c" "Social \<noteq> c" by simp_all
    then have "places S c t (ph Social (ph News (ph c st0))) = places S c t (ph c st0)"
      by (simp add: other)
    with Price show ?thesis
      unfolding batch by blast
  next
    case News
    then have "Price \<noteq> c" "Social \<noteq> c" by simp_all
    then have "places S c t (ph Social (ph c (ph Price st0))) = places S c t (ph c (ph Price st0))"
      and "places S c t (ph Price st0) = places S c t st0"
      by (simp_all add: other)
    with News show ?thesis
      unfolding batch by blast
  next
    case Social
    then have "Price \<noteq> c" "News \<noteq> c" by simp_all
    then have "places S c t (ph News (ph Price st0)) = places S c t st0"
      by (simp add: other)
    with Social show ?thesis
      unfolding batch by blast
  qed
  then obtain st where a: "places S c t (run_batch S tasks order tickers enabled fs)
        = places S c t (ph c st)" and b: "places S c t st = places S c t st0"
    by blast
  note s = start [OF b]
  show ?thesis
    unfolding a own by (cases "tasks c t" rule: outcome_cases) (simp_all add: s)
qed

lemma run_batch_writes:
  assumes "\<forall>c. set (order c tickers) = set tickers"
    and "files (run_batch S tasks order tickers enabled fs) p \<noteq> fs p"
  shows "\<exists>c t d. enabled c \<and> t \<in> set tickers \<and> tasks c t = Returned d \<and> error_of d = None
           \<and> p = file_path S c t \<and> files (run_batch S tasks order tickers enabled fs) p = Some d"
proof -
  define st0 where "st0 = \<lparr> results = Map.empty, files = fs \<rparr>"
  define ph where "ph c st = (if enabled c
     then run_phase S c (map (\<lambda>ticker. (ticker, tasks c ticker)) (order c tickers)) st else st)"
    for c st
  define st1 where "st1 = ph Price st0"
  define st2 where "st2 = ph News st1"
  define st3 where "st3 = ph Social st2"
  have batch: "run_batch S tasks order tickers enabled fs = st3"
    by (simp add: run_batch_def Let_def st3_def st2_def st1_def st0_def ph_def)
  have step: "\<exists>t d. enabled c \<and> t \<in> set tickers \<and> tasks c t = Returned d \<and> error_of d = None
           \<and> p = file_path S c t \<and> files (ph c st) p = Some d"
    if "files (ph c st) p \<noteq> files st p" for c st
  proof -
    from that have on: "enabled c" by (auto simp: ph_def split: if_splits)
    with that have "files (run_phase S c (map (\<lambda>ticker. (ticker, tasks c ticker)) (order c tickers)) st) p
        \<noteq> files st p"
      by (simp add: ph_def)
    from run_phase_writes [OF this] on assms(1) show ?thesis
      by (auto simp: ph_def)
  qed
  have f0: "files st0 p = fs p" by (simp add: st0_def)
  show ?thesis
  proof (cases "files st3 p = files st2 p")
    case False
    then have "files (ph Social st2) p \<noteq> files st2 p" by (simp add: st3_def)
    from step [OF this] show ?thesis
      unfolding batch st3_def by blast
  next
    case e3: True
    show ?thesis
    proof (cases "files st2 p = files st1 p")
      case False
      then have "files (ph News st1) p \<noteq> files st1 p" by (simp add: st2_def)
      from step [OF this] e3 show ?thesis
        unfolding batch st2_def by auto
    next
      case e2: True
      with e3 assms(2) f0 have "files (ph Price st0) p \<noteq> files st0 p"
        by (simp add: batch st1_def)
      from step [OF this] e3 e2 show ?thesis
        unfolding batch st1_def by auto
    qed
  qed
qed


text \<open>
  Claim C6. In a batch over tickers that are pairwise different, for every ticker and
  every phase that runs: when the ticker's future returns a dictionary without an
  \<^verbatim>\<open>error\<close> key, the snapshot file of that ticker and category holds that dictionary and
  the result map has it under the category's key, with nothing under the error key; when
  the future returns a dictionary with an \<^verbatim>\<open>error\<close> key, or raises, the file is left as it
  was before the batch, the message is under the category's error key and nothing is
  under the category's key. Moreover every file the batch changes is the snapshot of a
  future that returned without an error, and holds that future's dictionary.
\<close>

theorem snapshot_written_iff_success:
  assumes "\<forall>c. distinct (order c tickers) \<and> set (order c tickers) = set tickers"
    and "ticker \<in> set tickers" and "enabled cat"
  shows "(let st = run_batch S tasks order tickers enabled fs;
              path = file_path S cat ticker;
              key = cat_name cat;
              error_key = cat_name cat @ ''_error''
          in (case tasks cat ticker of
                Returned data \<Rightarrow>
                  (case error_of data of
                     None \<Rightarrow> files st path = Some data
                             \<and> result_at st ticker key = Some (Data data)
                             \<and> result_at st ticker error_key = None
                   | Some e \<Rightarrow> files st path = fs path
                             \<and> result_at st ticker key = None
                             \<and> result_at st ticker error_key = Some (ErrorText e))
              | Raised e \<Rightarrow> files st path = fs path
                             \<and> result_at st ticker key = None
                             \<and> result_at st ticker error_key = Some (ErrorText e))
             \<and> (\<forall>p. files st p \<noteq> fs p \<longrightarrow>
                   (\<exists>c t d. enabled c \<and> t \<in> set tickers \<and> tasks c t = Returned d
                      \<and> error_of d = None \<and> p = file_path S c t \<and> files st p = Some d)))"
proof -
  define st where "st = run_batch S tasks order tickers enabled fs"
  have p: "places S cat ticker st
     = (case tasks cat ticker of
          Returned d \<Rightarrow>
            (case error_of d of
               None \<Rightarrow> (Some d, Some (Data d), None)
             | Some e \<Rightarrow> (fs (file_path S cat ticker), None, Some (ErrorText e)))
        | Raised e \<Rightarrow> (fs (file_path S cat ticker), None, Some (ErrorText e)))"
    unfolding st_def using assms by (rule run_batch_places)
  have first: "case tasks cat ticker of
                Returned data \<Rightarrow>
                  (case error_of data of
                     None \<Rightarrow> files st (file_path S cat ticker) = Some data
                             \<and> result_at st ticker (cat_name cat) = Some (Data data)
                             \<and> result_at st ticker (cat_name cat @ ''_error'') = None
                   | Some e \<Rightarrow> files st (file_path S cat ticker) = fs (file_path S cat ticker)
                             \<and> result_at st ticker (cat_name cat) = None
                             \<and> result_at st ticker (cat_name cat @ ''_error'') = Some (ErrorText e))
              | Raised e \<Rightarrow> files st (file_path S cat ticker) = fs (file_path S cat ticker)
                             \<and> result_at st ticker (cat_name cat) = None
                             \<and> result_at st ticker (cat_name cat @ ''_error'') = Some (ErrorText e)"
    using p by (cases "tasks cat ticker" rule: outcome_cases) (simp_all add: places_def)
  have second: "\<forall>p. files st p \<noteq> fs p \<longrightarrow>
                   (\<exists>c t d. enabled c \<and> t \<in> set tickers \<and> tasks c t = Returned d
                      \<and> error_of d = None \<and> p = file_path S c t \<and> files st p = Some d)"
    unfolding st_def using assms(1) by (intro allI impI run_batch_writes) simp_all
  show ?thesis
    unfolding Let_def st_def [symmetric] using first second by (rule conjI)
qed

lemma demo_batch_ok:
  "error_of (PriceV (collect_price_data one_ticker_world ''AAPL'' ''stock'' ''30d'' ''1h'')) = None"
  by (simp add: collect_price_data_def one_ticker_world_def six_stamps_def Let_def)

lemma demo_batch_err:
  "error_of (PriceV (collect_price_data one_ticker_world ''NOPE'' ''stock'' ''30d'' ''1h''))
     = Some ''No historical data available for NOPE''"
  by (simp add: collect_price_data_def one_ticker_world_def)

theorem snapshot_written_iff_success_witness:
  "files demo_batch ''out/price_data/AAPL_price.json''
     = Some (PriceV (collect_price_data one_ticker_world ''AAPL'' ''stock'' ''30d'' ''1h''))
   \<and> result_at demo_batch ''AAPL'' ''price''
     = Some (Data (PriceV (collect_price_data one_ticker_world ''AAPL'' ''stock'' ''30d'' ''1h'')))
   \<and> result_at demo_batch ''AAPL'' ''price_error'' = None
   \<and> files demo_batch ''out/price_data/NOPE_price.json'' = None
   \<and> result_at demo_batch ''NOPE'' ''price'' = None
   \<and> result_at demo_batch ''NOPE'' ''price_error''
     = Some (ErrorText ''No historical data available for NOPE'')"
proof -
  have perm: "\<forall>c. distinct ((\<lambda>c ts. rev ts) c [''AAPL'', ''NOPE''])
                \<and> set ((\<lambda>c ts. rev ts) c [''AAPL'', ''NOPE'']) = set [''AAPL'', ''NOPE'']"
    by auto
  have on: "phase_enabled demo_world True True False Price"
    by simp
  have batch: "demo_batch = run_batch demo_dirs (collector_task one_ticker_world demo_world ''stock'')
      (\<lambda>c ts. rev ts) [''AAPL'', ''NOPE''] (phase_enabled demo_world True True False) Map.empty"
    by (simp add: demo_batch_def collect_sentiment_data_batch_def)
  have a: "''AAPL'' \<in> set [''AAPL'', ''NOPE'']" and n: "''NOPE'' \<in> set [''AAPL'', ''NOPE'']"
    by simp_all
  note T = snapshot_written_iff_success
      [where order = "\<lambda>c ts. rev ts" and tickers = "[''AAPL'', ''NOPE'']"
         and enabled = "phase_enabled demo_world True True False" and cat = Price
         and S = demo_dirs and tasks = "collector_task one_ticker_world demo_world ''stock''"
         and fs = Map.empty]
  note A = T [where ticker = "''AAPL''", OF perm a on, folded batch, unfolded Let_def,
      THEN conjunct1]
  note N = T [where ticker = "''NOPE''", OF perm n on, folded batch, unfolded Let_def,
      THEN conjunct1]
  from A have A': "files demo_batch ''out/price_data/AAPL_price.json''
     = Some (PriceV (collect_price_data one_ticker_world ''AAPL'' ''stock'' ''30d'' ''1h''))
   \<and> result_at demo_batch ''AAPL'' ''price''
     = Some (Data (PriceV (collect_price_data one_ticker_world ''AAPL'' ''stock'' ''30d'' ''1h'')))
   \<and> result_at demo_batch ''AAPL'' ''price_error'' = None"
    by (simp add: demo_batch_ok file_path_def demo_dirs_def)
  from N have N': "files demo_batch ''out/price_data/NOPE_price.json'' = None
   \<and> result_at demo_batch ''NOPE'' ''price'' = None
   \<and> result_at demo_batch ''NOPE'' ''price_error''
     = Some (ErrorText ''No historical data available for NOPE'')"
    by (simp add: demo_batch_err file_path_def demo_dirs_def)
  from A' N' show ?thesis by simp
qed

end
